theory Spec2Isabelle
  imports Main
begin

section \<open>Values and exceptions of the Python program\<close>

text \<open>
  The server \<^verbatim>\<open>uk_mcp_server.py\<close> works on the values that \<^verbatim>\<open>json.load\<close> and
  \<^verbatim>\<open>response.json()\<close> produce: \<^verbatim>\<open>None\<close>, booleans, integers, strings, lists and
  dictionaries with string keys, and floats. A dictionary is an association list in
  insertion order; a Python dictionary has no duplicate keys, and \<open>map_of\<close> reads the
  first entry of a key. A character is a code point below 256.

  A float is kept as what the program can observe of it. \<open>Finite w f t\<close> is a finite
  number: \<open>w\<close> is the number cut off toward zero, which is what \<^verbatim>\<open>int\<close> gives, \<open>f\<close> says
  whether a fraction was cut off, and \<open>t\<close> is the text that \<^verbatim>\<open>str\<close> gives. The model does
  not compute the digits of that text. \<open>Infinite negative\<close> is one of the two infinities
  (\<^verbatim>\<open>1e999\<close>, \<^verbatim>\<open>Infinity\<close>), and \<open>NaN\<close> is not a number.
\<close>

datatype py_float =
    Finite int bool string
  | Infinite bool
  | NaN

datatype json =
    JNull
  | JBool bool
  | JInt int
  | JFloat py_float
  | JStr string
  | JList "json list"
  | JDict "(string \<times> json) list"

text \<open>
  The exceptions that the program's code can raise or names in a handler. \<open>KeyError\<close>
  carries the missing key and \<open>HTTPStatusError\<close> the status and the text of the response;
  the others that carry a string carry their message. \<open>OSError\<close> stands for the errors of
  \<^verbatim>\<open>open\<close> other than \<open>FileNotFoundError\<close>, \<open>TransportError\<close> for the exceptions of the
  HTTP library when no response arrives. \<open>JSONDecodeError\<close> and \<open>UnicodeDecodeError\<close> are
  subclasses of \<open>ValueError\<close>. \<open>CancelledError\<close> is the only one that is not a subclass of
  \<^verbatim>\<open>Exception\<close>.
\<close>

datatype py_error =
    KeyError string
  | IndexError string
  | ValueError string
  | JSONDecodeError string
  | UnicodeDecodeError string
  | TypeError
  | AttributeError
  | OverflowError string
  | RecursionError string
  | FileNotFoundError
  | OSError string
  | HTTPStatusError nat string
  | TransportError string
  | CancelledError

definition is_value_error :: "py_error \<Rightarrow> bool" where
  "is_value_error e =
     (case e of
        ValueError m \<Rightarrow> True
      | JSONDecodeError m \<Rightarrow> True
      | UnicodeDecodeError m \<Rightarrow> True
      | _ \<Rightarrow> False)"

definition is_exception :: "py_error \<Rightarrow> bool" where
  "is_exception e = (e \<noteq> CancelledError)"

text \<open>Sequencing of steps that may raise: the first exception ends the computation.\<close>

definition bind :: "py_error + 'a \<Rightarrow> ('a \<Rightarrow> py_error + 'b) \<Rightarrow> py_error + 'b" where
  "bind m f = (case m of Inl e \<Rightarrow> Inl e | Inr x \<Rightarrow> f x)"

subsection \<open>Characters and strings\<close>

definition code_point :: "char \<Rightarrow> nat" where
  "code_point c = of_char c"

definition is_digit :: "char \<Rightarrow> bool" where
  "is_digit c = (48 \<le> code_point c \<and> code_point c \<le> 57)"

definition digit_val :: "char \<Rightarrow> nat" where
  "digit_val c = code_point c - 48"

definition digit_char :: "nat \<Rightarrow> char" where
  "digit_char n = ''0123456789abcdef'' ! n"

text \<open>
  \<^verbatim>\<open>str.lower()\<close> on code points below 256: the capital letters are \<^verbatim>\<open>A\<close> to \<^verbatim>\<open>Z\<close>
  and \<^verbatim>\<open>U+00C0\<close> to \<^verbatim>\<open>U+00DE\<close> without the multiplication sign \<^verbatim>\<open>U+00D7\<close>; the
  small letter is 32 code points higher.
\<close>

definition py_lower_char :: "char \<Rightarrow> char" where
  "py_lower_char c =
     (let n = code_point c
      in if (65 \<le> n \<and> n \<le> 90) \<or> (192 \<le> n \<and> n \<le> 222 \<and> n \<noteq> 215)
         then char_of (n + 32) else c)"

definition py_lower :: "string \<Rightarrow> string" where
  "py_lower s = map py_lower_char s"

text \<open>\<^verbatim>\<open>a in b\<close> on strings: \<open>a\<close> occurs in \<open>b\<close> as a contiguous run of characters.\<close>

fun starts_with :: "string \<Rightarrow> string \<Rightarrow> bool" where
  "starts_with [] s = True"
| "starts_with (a # as) [] = False"
| "starts_with (a # as) (b # bs) = (a = b \<and> starts_with as bs)"

fun py_in :: "string \<Rightarrow> string \<Rightarrow> bool" where
  "py_in a [] = (a = [])"
| "py_in a (b # bs) = (starts_with a (b # bs) \<or> py_in a bs)"

text \<open>\<^verbatim>\<open>s.replace("Z", "")\<close>: every occurrence of the one-character string is removed.\<close>

definition py_replace_Z :: "string \<Rightarrow> string" where
  "py_replace_Z s = filter (\<lambda>c. c \<noteq> CHR ''Z'') s"

text \<open>\<^verbatim>\<open>sep.join(parts)\<close>.\<close>

fun py_join :: "string \<Rightarrow> string list \<Rightarrow> string" where
  "py_join sep [] = []"
| "py_join sep [x] = x"
| "py_join sep (x # y # ys) = x @ sep @ py_join sep (y # ys)"

subsection \<open>Integers as text\<close>

text \<open>\<^verbatim>\<open>str(n)\<close> of an integer: decimal digits, a minus sign for a negative number.\<close>

fun show_nat :: "nat \<Rightarrow> string" where
  "show_nat n =
     (if n < 10 then [digit_char n] else show_nat (n div 10) @ [digit_char (n mod 10)])"

definition show_int :: "int \<Rightarrow> string" where
  "show_int i = (if i < 0 then CHR ''-'' # show_nat (nat (- i)) else show_nat (nat i))"

text \<open>
  The format specification \<^verbatim>\<open>02d\<close>: the decimal text, filled with zeros after the sign
  up to a width of two characters.
\<close>

definition format_02d :: "int \<Rightarrow> string" where
  "format_02d i = (if 0 \<le> i \<and> i < 10 then CHR ''0'' # show_int i else show_int i)"

text \<open>
  The interpreter refuses to turn an integer of more than 4300 decimal digits into text,
  and a text of more than 4300 digits into an integer: both raise \<open>ValueError\<close>. The limit
  is the default of \<^verbatim>\<open>sys.set_int_max_str_digits\<close>, which the program does not change; the
  messages are those of CPython 3.11.
\<close>

definition max_str_digits :: nat where
  "max_str_digits = 4300"

definition digit_count :: "int \<Rightarrow> nat" where
  "digit_count i = length (show_nat (nat \<bar>i\<bar>))"

definition str_limit_error :: py_error where
  "str_limit_error =
     ValueError (''Exceeds the limit (4300 digits) for integer string conversion; ''
                 @ ''use sys.set_int_max_str_digits() to increase the limit'')"

definition int_limit_error :: "nat \<Rightarrow> py_error" where
  "int_limit_error n =
     ValueError (''Exceeds the limit (4300 digits) for integer string conversion: value has ''
                 @ show_nat n
                 @ '' digits; use sys.set_int_max_str_digits() to increase the limit'')"

text \<open>\<^verbatim>\<open>f"{i:02d}"\<close>.\<close>

definition py_format_02d :: "int \<Rightarrow> py_error + string" where
  "py_format_02d i =
     (if max_str_digits < digit_count i then Inl str_limit_error else Inr (format_02d i))"

text \<open>
  \<^verbatim>\<open>repr(s)\<close> of a string. The quote is \<^verbatim>\<open>"\<close> when the string holds \<^verbatim>\<open>'\<close> and no
  \<^verbatim>\<open>"\<close>, else \<^verbatim>\<open>'\<close>. The quote and the backslash are escaped, tab, newline and return
  have their letter, and a code point that is not printable is written \<^verbatim>\<open>\xhh\<close>.
\<close>

definition py_printable :: "char \<Rightarrow> bool" where
  "py_printable c =
     (let n = code_point c in 32 \<le> n \<and> \<not> (127 \<le> n \<and> n \<le> 160) \<and> n \<noteq> 173)"

definition repr_char :: "char \<Rightarrow> char \<Rightarrow> string" where
  "repr_char q c =
     (if c = q \<or> c = CHR 0x5C then [CHR 0x5C, c]
      else if c = CHR 0x09 then [CHR 0x5C, CHR ''t'']
      else if c = CHR 0x0A then [CHR 0x5C, CHR ''n'']
      else if c = CHR 0x0D then [CHR 0x5C, CHR ''r'']
      else if py_printable c then [c]
      else [CHR 0x5C, CHR ''x'', digit_char (code_point c div 16), digit_char (code_point c mod 16)])"

definition py_repr_str :: "string \<Rightarrow> string" where
  "py_repr_str s =
     (let q = (if CHR 0x27 \<in> set s \<and> CHR 0x22 \<notin> set s then CHR 0x22 else CHR 0x27)
      in [q] @ concat (map (repr_char q) s) @ [q])"

text \<open>
  The text of a value: \<^verbatim>\<open>repr(v)\<close>, and \<^verbatim>\<open>str(v)\<close>, which differs on strings only.
\<close>

definition float_text :: "py_float \<Rightarrow> string" where
  "float_text x =
     (case x of
        Finite w f t \<Rightarrow> t
      | Infinite negative \<Rightarrow> (if negative then ''-inf'' else ''inf'')
      | NaN \<Rightarrow> ''nan'')"

primrec py_repr :: "json \<Rightarrow> string" where
  "py_repr JNull = ''None''"
| "py_repr (JBool b) = (if b then ''True'' else ''False'')"
| "py_repr (JInt n) = show_int n"
| "py_repr (JFloat x) = float_text x"
| "py_repr (JStr s) = py_repr_str s"
| "py_repr (JList xs) = ''['' @ py_join '', '' (map py_repr xs) @ '']''"
| "py_repr (JDict d) =
     ''{'' @ py_join '', ''
              (map (\<lambda>kv. py_repr_str (fst kv) @ '': '' @ snd kv) (map (map_prod id py_repr) d))
     @ ''}''"

definition py_text :: "json \<Rightarrow> string" where
  "py_text v = (case v of JStr s \<Rightarrow> s | _ \<Rightarrow> py_repr v)"

text \<open>
  \<^verbatim>\<open>str(v)\<close>, which an f-string applies to a value it embeds, raises when the value is or
  holds an integer beyond the limit of digits.
\<close>

primrec within_limit :: "json \<Rightarrow> bool" where
  "within_limit JNull = True"
| "within_limit (JBool b) = True"
| "within_limit (JInt n) = (digit_count n \<le> max_str_digits)"
| "within_limit (JFloat x) = True"
| "within_limit (JStr s) = True"
| "within_limit (JList xs) = list_all id (map within_limit xs)"
| "within_limit (JDict d) = list_all snd (map (map_prod id within_limit) d)"

definition py_str :: "json \<Rightarrow> py_error + string" where
  "py_str v = (if within_limit v then Inr (py_text v) else Inl str_limit_error)"

text \<open>
  \<^verbatim>\<open>int(s)\<close> of a string, base ten. White space around the number is dropped: the code
  points 9 to 13 and 32, and of those above 127 the two that are white space, 133 and
  160. A sign may come first. Then the digits are read, which single underscores may
  separate; an underscore at either end or next to another one makes the literal
  invalid. The digits are counted before what follows them is looked at, so that more
  than 4300 digits raise the error of the limit also when the literal goes on with
  something else. Every error is a \<open>ValueError\<close>.
\<close>

definition py_isspace :: "char \<Rightarrow> bool" where
  "py_isspace c =
     (let n = code_point c
      in (9 \<le> n \<and> n \<le> 13) \<or> n = 32 \<or> n = 133 \<or> n = 160)"

definition py_strip :: "string \<Rightarrow> string" where
  "py_strip s = rev (dropWhile py_isspace (rev (dropWhile py_isspace s)))"

definition invalid_literal :: "string \<Rightarrow> py_error" where
  "invalid_literal s =
     ValueError (''invalid literal for int() with base 10: '' @ py_repr_str s)"

definition digit_or_underscore :: "char \<Rightarrow> bool" where
  "digit_or_underscore c = (is_digit c \<or> c = CHR ''_'')"

fun single_underscores :: "string \<Rightarrow> bool" where
  "single_underscores [] = True"
| "single_underscores [c] = (c \<noteq> CHR ''_'')"
| "single_underscores (c # d # cs) =
     (\<not> (c = CHR ''_'' \<and> d = CHR ''_'') \<and> single_underscores (d # cs))"

definition digits_value :: "string \<Rightarrow> nat" where
  "digits_value ds = foldl (\<lambda>acc c. 10 * acc + digit_val c) 0 ds"

text \<open>
  The number without its sign: \<open>s\<close> is the whole argument, for the message, and \<open>body\<close>
  what follows the white space and the sign.
\<close>

definition py_unsigned :: "string \<Rightarrow> string \<Rightarrow> py_error + nat" where
  "py_unsigned s body =
     (let run = takeWhile digit_or_underscore body;
          digits = filter is_digit run
      in if run = [] \<or> hd run = CHR ''_'' \<or> \<not> single_underscores run
         then Inl (invalid_literal s)
         else if max_str_digits < length digits then Inl (int_limit_error (length digits))
         else if dropWhile digit_or_underscore body \<noteq> [] then Inl (invalid_literal s)
         else Inr (digits_value digits))"

definition int_of_str :: "string \<Rightarrow> py_error + int" where
  "int_of_str s =
     (case py_strip s of
        [] \<Rightarrow> Inl (invalid_literal s)
      | c # cs \<Rightarrow>
          if c = CHR ''-'' then bind (py_unsigned s cs) (\<lambda>n. Inr (- int n))
          else if c = CHR ''+'' then bind (py_unsigned s cs) (\<lambda>n. Inr (int n))
          else bind (py_unsigned s (c # cs)) (\<lambda>n. Inr (int n)))"

text \<open>
  \<^verbatim>\<open>int(v)\<close> of a value: a string is parsed, a boolean is 0 or 1, a finite float is cut
  off toward zero, an infinity raises \<open>OverflowError\<close> and \<open>NaN\<close> raises \<open>ValueError\<close>.
\<close>

definition int_of_float :: "py_float \<Rightarrow> py_error + int" where
  "int_of_float x =
     (case x of
        Finite w f t \<Rightarrow> Inr w
      | Infinite negative \<Rightarrow> Inl (OverflowError ''cannot convert float infinity to integer'')
      | NaN \<Rightarrow> Inl (ValueError ''cannot convert float NaN to integer''))"

definition py_int :: "json \<Rightarrow> py_error + int" where
  "py_int v =
     (case v of
        JInt n \<Rightarrow> Inr n
      | JBool b \<Rightarrow> Inr (if b then 1 else 0)
      | JFloat x \<Rightarrow> int_of_float x
      | JStr s \<Rightarrow> int_of_str s
      | _ \<Rightarrow> Inl TypeError)"

text \<open>
  \<^verbatim>\<open>not v\<close> is true of \<^verbatim>\<open>None\<close>, \<^verbatim>\<open>False\<close>, zero (the integer and the float) and the empty
  string, list and dictionary.
\<close>

definition float_nonzero :: "py_float \<Rightarrow> bool" where
  "float_nonzero x = (case x of Finite w f t \<Rightarrow> w \<noteq> 0 \<or> f | _ \<Rightarrow> True)"

definition py_truthy :: "json \<Rightarrow> bool" where
  "py_truthy v =
     (case v of
        JNull \<Rightarrow> False
      | JBool b \<Rightarrow> b
      | JInt n \<Rightarrow> n \<noteq> 0
      | JFloat x \<Rightarrow> float_nonzero x
      | JStr s \<Rightarrow> s \<noteq> []
      | JList xs \<Rightarrow> xs \<noteq> []
      | JDict d \<Rightarrow> d \<noteq> [])"

text \<open>
  \<^verbatim>\<open>v[k]\<close> with a string key: a dictionary gives the value or a \<open>KeyError\<close>, every
  other value a \<open>TypeError\<close>.
\<close>

definition py_getitem :: "json \<Rightarrow> string \<Rightarrow> py_error + json" where
  "py_getitem v k =
     (case v of
        JDict d \<Rightarrow> (case map_of d k of Some x \<Rightarrow> Inr x | None \<Rightarrow> Inl (KeyError k))
      | _ \<Rightarrow> Inl TypeError)"

text \<open>\<^verbatim>\<open>v.get(k, default)\<close>: only a dictionary has the method.\<close>

definition py_get :: "json \<Rightarrow> string \<Rightarrow> json \<Rightarrow> py_error + json" where
  "py_get v k dflt =
     (case v of
        JDict d \<Rightarrow> (case map_of d k of Some x \<Rightarrow> Inr x | None \<Rightarrow> Inr dflt)
      | _ \<Rightarrow> Inl AttributeError)"

text \<open>
  \<^verbatim>\<open>for x in v\<close>: a list gives its elements, a dictionary its keys, a string its
  characters; the other values are not iterable.
\<close>

definition py_iter :: "json \<Rightarrow> py_error + json list" where
  "py_iter v =
     (case v of
        JList xs \<Rightarrow> Inr xs
      | JDict d \<Rightarrow> Inr (map (\<lambda>kv. JStr (fst kv)) d)
      | JStr s \<Rightarrow> Inr (map (\<lambda>c. JStr [c]) s)
      | _ \<Rightarrow> Inl TypeError)"

text \<open>A string method (\<^verbatim>\<open>lower\<close>, \<^verbatim>\<open>replace\<close>) called on a value: only a string has it.\<close>

definition py_str_method :: "(string \<Rightarrow> string) \<Rightarrow> json \<Rightarrow> py_error + string" where
  "py_str_method f v = (case v of JStr s \<Rightarrow> Inr (f s) | _ \<Rightarrow> Inl AttributeError)"

text \<open>
  \<^verbatim>\<open>str(e)\<close> of an exception that a handler of the program prints. The handlers never
  print a \<open>TypeError\<close>, an \<open>AttributeError\<close>, an \<open>HTTPStatusError\<close> or a \<open>CancelledError\<close>,
  whose texts are left empty.
\<close>

definition str_of_error :: "py_error \<Rightarrow> string" where
  "str_of_error e =
     (case e of
        KeyError k \<Rightarrow> py_repr_str k
      | IndexError m \<Rightarrow> m
      | ValueError m \<Rightarrow> m
      | JSONDecodeError m \<Rightarrow> m
      | UnicodeDecodeError m \<Rightarrow> m
      | OverflowError m \<Rightarrow> m
      | RecursionError m \<Rightarrow> m
      | OSError m \<Rightarrow> m
      | TransportError m \<Rightarrow> m
      | FileNotFoundError \<Rightarrow> ''[Errno 2] No such file or directory: '' @ py_repr_str ''stations.json''
      | _ \<Rightarrow> [])"

section \<open>The weather code table\<close>

text \<open>
  \<^verbatim>\<open>WEATHER_CODES\<close> has the string key \<^verbatim>\<open>"NA"\<close> and the integer keys 0 to 30.
\<close>

datatype code_key = KStr string | KInt int

definition WEATHER_CODES :: "(code_key \<times> string) list" where
  "WEATHER_CODES =
     [(KStr ''NA'', ''Not available''),
      (KInt 0, ''Clear night''),
      (KInt 1, ''Sunny day''),
      (KInt 2, ''Partly cloudy (night)''),
      (KInt 3, ''Partly cloudy (day)''),
      (KInt 4, ''Not used''),
      (KInt 5, ''Mist''),
      (KInt 6, ''Fog''),
      (KInt 7, ''Cloudy''),
      (KInt 8, ''Overcast''),
      (KInt 9, ''Light rain shower (night)''),
      (KInt 10, ''Light rain shower (day)''),
      (KInt 11, ''Drizzle''),
      (KInt 12, ''Light rain''),
      (KInt 13, ''Heavy rain shower (night)''),
      (KInt 14, ''Heavy rain shower (day)''),
      (KInt 15, ''Heavy rain''),
      (KInt 16, ''Sleet shower (night)''),
      (KInt 17, ''Sleet shower (day)''),
      (KInt 18, ''Sleet''),
      (KInt 19, ''Hail shower (night)''),
      (KInt 20, ''Hail shower (day)''),
      (KInt 21, ''Hail''),
      (KInt 22, ''Light snow shower (night)''),
      (KInt 23, ''Light snow shower (day)''),
      (KInt 24, ''Light snow''),
      (KInt 25, ''Heavy snow shower (night)''),
      (KInt 26, ''Heavy snow shower (day)''),
      (KInt 27, ''Heavy snow''),
      (KInt 28, ''Thunder shower (night)''),
      (KInt 29, ''Thunder shower (day)''),
      (KInt 30, ''Thunder'')]"

text \<open>\<^verbatim>\<open>WEATHER_CODES.get(key, default)\<close>.\<close>

definition codes_get :: "code_key \<Rightarrow> string \<Rightarrow> string" where
  "codes_get k dflt = (case map_of WEATHER_CODES k of Some d \<Rightarrow> d | None \<Rightarrow> dflt)"

text \<open>
  \<^verbatim>\<open>get_weather_description\<close>. In the \<^verbatim>\<open>try\<close> block the integer of the code is made, then
  the text of the default, and the integer is looked up. When one of the two raises
  \<open>ValueError\<close> or \<open>TypeError\<close>, the handler looks up the text of the code instead; what the
  handler raises, and every other exception of the block, leaves the function.
\<close>

definition description_by_int :: "json \<Rightarrow> py_error + string" where
  "description_by_int code =
     bind (py_int code) (\<lambda>n.
     bind (py_str code) (\<lambda>shown.
       Inr (codes_get (KInt n) (''Unknown code: '' @ shown))))"

definition description_by_text :: "json \<Rightarrow> py_error + string" where
  "description_by_text code =
     bind (py_str code) (\<lambda>key.
     bind (py_str code) (\<lambda>shown.
       Inr (codes_get (KStr key) (''Unknown code: '' @ shown))))"

definition get_weather_description :: "json \<Rightarrow> py_error + string" where
  "get_weather_description code =
     (case description_by_int code of
        Inr d \<Rightarrow> Inr d
      | Inl e \<Rightarrow> if is_value_error e \<or> e = TypeError then description_by_text code else Inl e)"

section \<open>Resolving a location name\<close>

text \<open>
  What \<^verbatim>\<open>open("stations.json")\<close> followed by \<^verbatim>\<open>json.load\<close> finds, with the exception
  that each case raises:

    \<^item> no file: \<open>FileNotFoundError\<close>;
    \<^item> a file that may not be read, or a directory of that name: another \<open>OSError\<close>;
    \<^item> bytes that are no text in the encoding of the locale: \<open>UnicodeDecodeError\<close>;
    \<^item> a text that is no JSON document, an empty file among them: \<open>JSONDecodeError\<close>;
    \<^item> a document with an integer of more than 4300 digits: \<open>ValueError\<close>;
    \<^item> a document nested deeper than the interpreter recurses: \<open>RecursionError\<close>;
    \<^item> a document that loads.

  The cases that raise keep the message of their exception.
\<close>

datatype stations_file =
    FileMissing
  | FileDenied string
  | FileNotText string
  | FileMalformed string
  | FileLongInteger string
  | FileTooDeep string
  | FileJson json

definition read_stations :: "stations_file \<Rightarrow> py_error + json" where
  "read_stations f =
     (case f of
        FileMissing \<Rightarrow> Inl FileNotFoundError
      | FileDenied m \<Rightarrow> Inl (OSError m)
      | FileNotText m \<Rightarrow> Inl (UnicodeDecodeError m)
      | FileMalformed m \<Rightarrow> Inl (JSONDecodeError m)
      | FileLongInteger m \<Rightarrow> Inl (ValueError m)
      | FileTooDeep m \<Rightarrow> Inl (RecursionError m)
      | FileJson data \<Rightarrow> Inr data)"

text \<open>
  The two loops of \<^verbatim>\<open>lookup_station_id\<close>. A loop gives \<open>Some\<close> of the identifier when
  it returns from the function and \<open>None\<close> when it runs to its end.
\<close>

fun exact_loop :: "string \<Rightarrow> json list \<Rightarrow> py_error + json option" where
  "exact_loop query_name [] = Inr None"
| "exact_loop query_name (location # rest) =
     bind (py_getitem location ''name'') (\<lambda>nm.
     bind (py_str_method py_lower nm) (\<lambda>lowered.
       if lowered = py_lower query_name
       then bind (py_getitem location ''id'') (\<lambda>i. Inr (Some i))
       else exact_loop query_name rest))"

fun partial_loop :: "string \<Rightarrow> json list \<Rightarrow> py_error + json option" where
  "partial_loop query_name [] = Inr None"
| "partial_loop query_name (location # rest) =
     bind (py_getitem location ''name'') (\<lambda>nm.
     bind (py_str_method py_lower nm) (\<lambda>lowered.
       if py_in (py_lower query_name) lowered
       then bind (py_getitem location ''id'') (\<lambda>i. Inr (Some i))
       else partial_loop query_name rest))"

text \<open>The body of the \<^verbatim>\<open>try\<close> block.\<close>

definition lookup_body :: "stations_file \<Rightarrow> string \<Rightarrow> py_error + json option" where
  "lookup_body f query_name =
     bind (read_stations f) (\<lambda>data.
     bind (py_get data ''Locations'' (JDict [])) (\<lambda>ls.
     bind (py_get ls ''Location'' (JList [])) (\<lambda>locations.
     bind (py_iter locations) (\<lambda>locs.
     bind (exact_loop query_name locs) (\<lambda>found.
       case found of
         Some i \<Rightarrow> Inr (Some i)
       | None \<Rightarrow> partial_loop query_name locs)))))"

text \<open>\<^verbatim>\<open>except (FileNotFoundError, json.JSONDecodeError, KeyError)\<close>.\<close>

definition lookup_catches :: "py_error \<Rightarrow> bool" where
  "lookup_catches e =
     (case e of
        FileNotFoundError \<Rightarrow> True
      | JSONDecodeError m \<Rightarrow> True
      | KeyError k \<Rightarrow> True
      | _ \<Rightarrow> False)"

text \<open>
  \<^verbatim>\<open>lookup_station_id\<close>: the lines printed, and the value returned or the exception
  that leaves the function. \<open>None\<close> is the \<^verbatim>\<open>None\<close> of the last line and of the handler;
  an identifier that is \<^verbatim>\<open>null\<close> in the file is returned as \<open>Some JNull\<close>, which is the same
  value to the caller.
\<close>

definition lookup_station_id ::
  "stations_file \<Rightarrow> string \<Rightarrow> string list \<times> (py_error + json option)" where
  "lookup_station_id f query_name =
     (case lookup_body f query_name of
        Inr r \<Rightarrow> ([], Inr r)
      | Inl e \<Rightarrow>
          if lookup_catches e
          then ([''Error reading stations.json: '' @ str_of_error e], Inr None)
          else ([], Inl e))"

section \<open>The request to the Met Office\<close>

text \<open>
  A dictionary of query parameters, and \<^verbatim>\<open>dict.setdefault\<close>: a key that is present
  keeps its value, a key that is absent is added at the end.
\<close>

type_synonym params = "(string \<times> json) list"

definition setdefault :: "params \<Rightarrow> string \<Rightarrow> json \<Rightarrow> params" where
  "setdefault d k v = (if k \<in> fst ` set d then d else d @ [(k, v)])"

text \<open>
  The call \<^verbatim>\<open>client.get(url, params=params, timeout=30.0)\<close> and what the HTTP library
  answers: a response with its status, its text and what \<^verbatim>\<open>response.json()\<close> makes of
  the text (the document, or the exception of the decoder), an exception of the
  transport with its message, or the cancellation of the task that awaits the answer.
  \<^verbatim>\<open>raise_for_status\<close> raises for every status outside 200 to 299.
\<close>

record request =
  url :: string
  query :: params
  timeout_seconds :: nat

datatype http_outcome =
    Response nat string "py_error + json"
  | TransportFault string
  | Cancelled

definition is_success :: "nat \<Rightarrow> bool" where
  "is_success status = (200 \<le> status \<and> status < 300)"

definition request_params :: "string \<Rightarrow> params option \<Rightarrow> params" where
  "request_params api_key ps =
     setdefault (case ps of None \<Rightarrow> [] | Some p \<Rightarrow> p) ''key'' (JStr api_key)"

text \<open>The body of the \<^verbatim>\<open>try\<close> block: the document, or the exception raised.\<close>

definition request_body :: "http_outcome \<Rightarrow> py_error + json" where
  "request_body outcome =
     (case outcome of
        Response status body document \<Rightarrow>
          if is_success status then document else Inl (HTTPStatusError status body)
      | TransportFault m \<Rightarrow> Inl (TransportError m)
      | Cancelled \<Rightarrow> Inl CancelledError)"

text \<open>
  \<^verbatim>\<open>make_met_office_request\<close>, for the configured key \<^verbatim>\<open>MET_OFFICE_API_KEY\<close> and the
  network \<open>net\<close>: the requests sent, the lines printed, and the value returned or the
  exception that leaves the function. The first handler takes \<open>HTTPStatusError\<close>, the
  second every \<^verbatim>\<open>Exception\<close>; both return \<^verbatim>\<open>None\<close>, which is \<open>JNull\<close>, the value that the
  document \<^verbatim>\<open>null\<close> has too.
\<close>

definition make_met_office_request ::
  "string \<Rightarrow> (request \<Rightarrow> http_outcome) \<Rightarrow> string \<Rightarrow> params option
     \<Rightarrow> request list \<times> string list \<times> (py_error + json)" where
  "make_met_office_request api_key net u ps =
     (let req = \<lparr>url = u, query = request_params api_key ps, timeout_seconds = 30\<rparr>
      in case request_body (net req) of
           Inr document \<Rightarrow> ([req], [], Inr document)
         | Inl (HTTPStatusError status body) \<Rightarrow>
             ([req], [''HTTP Error: '' @ show_nat status @ '' - '' @ body], Inr JNull)
         | Inl e \<Rightarrow>
             if is_exception e
             then ([req], [''An error occurred: '' @ str_of_error e], Inr JNull)
             else ([req], [], Inl e))"

section \<open>Formatting the observations\<close>

text \<open>
  The f-string of one hourly report, as a function of the texts it embeds: a record with
  one slot for each replacement field.
\<close>

record slots =
  time_slot :: string
  temp_slot :: string
  weather_slot :: string
  humidity_slot :: string
  pressure_slot :: string
  wind_speed_slot :: string
  wind_dir_slot :: string
  wind_gust_slot :: string
  visibility_slot :: string
  dew_point_slot :: string

definition observation_text :: "slots \<Rightarrow> string" where
  "observation_text s =
     ''\<newline>'' @ time_slot s @ '' - Temp: '' @ temp_slot s @ [CHR 0xB0] @ ''C, Weather: ''
     @ weather_slot s
     @ ''\<newline>         Humidity: '' @ humidity_slot s @ ''%, Pressure: '' @ pressure_slot s
     @ ''hPa''
     @ ''\<newline>         Wind: '' @ wind_speed_slot s @ ''mph from '' @ wind_dir_slot s
     @ '' (gusts '' @ wind_gust_slot s @ ''mph)''
     @ ''\<newline>         Visibility: '' @ visibility_slot s @ ''m, Dew Point: ''
     @ dew_point_slot s @ [CHR 0xB0] @ ''C''"

definition time_text :: "int \<Rightarrow> py_error + string" where
  "time_text time_minutes =
     (let hours = time_minutes div 60; minutes = time_minutes mod 60
      in bind (py_format_02d hours) (\<lambda>hh.
         bind (py_format_02d minutes) (\<lambda>mm. Inr (hh @ '':'' @ mm))))"

text \<open>
  The body of the loop over the hourly reports of a period. The f-string writes the
  values in the order of the template: temperature, description, humidity, pressure,
  wind speed, direction, gust, visibility, dew point.
\<close>

definition format_rep :: "json \<Rightarrow> py_error + string" where
  "format_rep rep =
     bind (py_getitem rep ''$'') (\<lambda>t.
     bind (py_int t) (\<lambda>time_minutes.
     bind (time_text time_minutes) (\<lambda>time_str.
     bind (py_get rep ''T'' (JStr ''N/A'')) (\<lambda>temp.
     bind (py_get rep ''H'' (JStr ''N/A'')) (\<lambda>humidity.
     bind (py_get rep ''P'' (JStr ''N/A'')) (\<lambda>pressure.
     bind (py_get rep ''S'' (JStr ''N/A'')) (\<lambda>wind_speed.
     bind (py_get rep ''G'' (JStr ''N/A'')) (\<lambda>wind_gust.
     bind (py_get rep ''D'' (JStr ''N/A'')) (\<lambda>wind_dir.
     bind (py_get rep ''W'' (JStr ''NA'')) (\<lambda>weather_code.
     bind (py_get rep ''V'' (JStr ''N/A'')) (\<lambda>visibility.
     bind (py_get rep ''Dp'' (JStr ''N/A'')) (\<lambda>dew_point.
     bind (get_weather_description weather_code) (\<lambda>weather_desc.
     bind (py_str temp) (\<lambda>temp_shown.
     bind (py_str humidity) (\<lambda>humidity_shown.
     bind (py_str pressure) (\<lambda>pressure_shown.
     bind (py_str wind_speed) (\<lambda>wind_speed_shown.
     bind (py_str wind_dir) (\<lambda>wind_dir_shown.
     bind (py_str wind_gust) (\<lambda>wind_gust_shown.
     bind (py_str visibility) (\<lambda>visibility_shown.
     bind (py_str dew_point) (\<lambda>dew_point_shown.
       Inr (observation_text
              \<lparr>time_slot = time_str,
               temp_slot = temp_shown,
               weather_slot = weather_desc,
               humidity_slot = humidity_shown,
               pressure_slot = pressure_shown,
               wind_speed_slot = wind_speed_shown,
               wind_dir_slot = wind_dir_shown,
               wind_gust_slot = wind_gust_shown,
               visibility_slot = visibility_shown,
               dew_point_slot = dew_point_shown\<rparr>))))))))))))))))))))))"

text \<open>
  The loops append to the list \<^verbatim>\<open>observations\<close>, which is passed along. An exception
  ends them, and the list built so far is lost with it.
\<close>

fun format_reps :: "json list \<Rightarrow> string list \<Rightarrow> py_error + string list" where
  "format_reps [] observations = Inr observations"
| "format_reps (rep # reps) observations =
     bind (format_rep rep) (\<lambda>observation. format_reps reps (observations @ [observation]))"

definition format_period :: "json \<Rightarrow> string list \<Rightarrow> py_error + string list" where
  "format_period period observations =
     bind (py_getitem period ''value'') (\<lambda>date.
     bind (py_str_method py_replace_Z date) (\<lambda>date_formatted.
     bind (py_getitem period ''Rep'') (\<lambda>rs.
     bind (py_iter rs) (\<lambda>reps.
       format_reps reps (observations @ [''\<newline>=== '' @ date_formatted @ '' ===''])))))"

fun format_periods :: "json list \<Rightarrow> string list \<Rightarrow> py_error + string list" where
  "format_periods [] observations = Inr observations"
| "format_periods (period # periods) observations =
     bind (format_period period observations) (\<lambda>observations'.
       format_periods periods observations')"

text \<open>The body of the \<^verbatim>\<open>try\<close> block of \<^verbatim>\<open>get_hourly_observations\<close>.\<close>

definition format_body :: "json \<Rightarrow> py_error + string" where
  "format_body data =
     bind (py_getitem data ''SiteRep'') (\<lambda>site_rep.
     bind (py_getitem site_rep ''DV'') (\<lambda>dv.
     bind (py_getitem dv ''Location'') (\<lambda>location.
     bind (py_getitem location ''name'') (\<lambda>location_name.
     bind (py_str location_name) (\<lambda>name_shown.
     bind (py_getitem location ''Period'') (\<lambda>ps.
     bind (py_iter ps) (\<lambda>periods.
     bind (format_periods periods [''Hourly observations for '' @ name_shown @ '':''])
       (\<lambda>observations. Inr (py_join ''\<newline>'' observations)))))))))"

text \<open>\<^verbatim>\<open>except (KeyError, IndexError, ValueError)\<close>, with the subclasses of \<open>ValueError\<close>.\<close>

definition format_catches :: "py_error \<Rightarrow> bool" where
  "format_catches e =
     (case e of
        KeyError k \<Rightarrow> True
      | IndexError m \<Rightarrow> True
      | _ \<Rightarrow> is_value_error e)"

definition parse_failure :: "py_error \<Rightarrow> string" where
  "parse_failure e =
     ''Failed to parse the observations data: '' @ str_of_error e
     @ ''. The structure might have changed or the location is invalid.''"

definition format_observations :: "json \<Rightarrow> py_error + string" where
  "format_observations data =
     (case format_body data of
        Inr text \<Rightarrow> Inr text
      | Inl e \<Rightarrow> if format_catches e then Inr (parse_failure e) else Inl e)"

section \<open>The exposed operation\<close>

text \<open>
  What the operation reads from outside: the station file, the network, and the key that
  the process was started with.
\<close>

record world =
  stations :: stations_file
  network :: "request \<Rightarrow> http_outcome"
  MET_OFFICE_API_KEY :: string

definition MET_OFFICE_API_BASE :: string where
  "MET_OFFICE_API_BASE = ''http://datapoint.metoffice.gov.uk/public/data/val''"

definition not_found_message :: "string \<Rightarrow> string" where
  "not_found_message name =
     ''Location '' @ [CHR 0x27] @ name @ [CHR 0x27]
     @ '' not found. Please check the spelling or try a different location name.''"

definition fetch_failure_message :: string where
  "fetch_failure_message = ''Unable to fetch observations data for this location.''"

text \<open>
  \<^verbatim>\<open>get_hourly_observations\<close>: the lines printed, the requests sent, and the text
  returned or the exception that leaves the operation.
\<close>

definition get_hourly_observations ::
  "world \<Rightarrow> string \<Rightarrow> string list \<times> request list \<times> (py_error + string)" where
  "get_hourly_observations w name =
     (case lookup_station_id (stations w) name of
        (out, Inl e) \<Rightarrow> (out, [], Inl e)
      | (out, Inr None) \<Rightarrow> (out, [], Inr (not_found_message name))
      | (out, Inr (Some locid)) \<Rightarrow>
          if \<not> py_truthy locid then (out, [], Inr (not_found_message name))
          else
            (case py_str locid of
               Inl e \<Rightarrow> (out, [], Inl e)
             | Inr id_shown \<Rightarrow>
                 (case make_met_office_request (MET_OFFICE_API_KEY w) (network w)
                         (MET_OFFICE_API_BASE @ ''/wxobs/all/json/'' @ id_shown)
                         (Some [(''res'', JStr ''hourly'')]) of
                    (reqs, out', Inl e) \<Rightarrow> (out @ out', reqs, Inl e)
                  | (reqs, out', Inr data) \<Rightarrow>
                      if \<not> py_truthy data then (out @ out', reqs, Inr fetch_failure_message)
                      else (out @ out', reqs, format_observations data))))"

section \<open>The notions of the specification\<close>

subsection \<open>The location directory\<close>

text \<open>
  A record of the directory has a name and an identifier. A JSON object is such a record
  when it has a string under \<^verbatim>\<open>name\<close> and a value under \<^verbatim>\<open>id\<close>; other keys are
  allowed. The directory of a station file is the sequence of the records under
  \<^verbatim>\<open>Locations\<close>, \<^verbatim>\<open>Location\<close>, when every element there is a record.
\<close>

record location =
  loc_name :: string
  loc_id :: json

definition as_location :: "json \<Rightarrow> location option" where
  "as_location v =
     (case v of
        JDict d \<Rightarrow>
          (case map_of d ''name'' of
             Some (JStr n) \<Rightarrow>
               (case map_of d ''id'' of
                  Some i \<Rightarrow> Some \<lparr>loc_name = n, loc_id = i\<rparr>
                | None \<Rightarrow> None)
           | _ \<Rightarrow> None)
      | _ \<Rightarrow> None)"

definition directory :: "stations_file \<Rightarrow> location list option" where
  "directory f =
     (case f of
        FileJson (JDict d) \<Rightarrow>
          (case map_of d ''Locations'' of
             Some (JDict l) \<Rightarrow>
               (case map_of l ''Location'' of
                  Some (JList locs) \<Rightarrow> those (map as_location locs)
                | _ \<Rightarrow> None)
           | _ \<Rightarrow> None)
      | _ \<Rightarrow> None)"

text \<open>
  The matching policy in the words of the specification: the first record, in file
  order, whose name equals the query without regard to case; if there is none, the first
  record whose name contains the query without regard to case; else nothing.
\<close>

definition equals_ignoring_case :: "string \<Rightarrow> location \<Rightarrow> bool" where
  "equals_ignoring_case q r = (py_lower (loc_name r) = py_lower q)"

definition contains_ignoring_case :: "string \<Rightarrow> location \<Rightarrow> bool" where
  "contains_ignoring_case q r = py_in (py_lower q) (py_lower (loc_name r))"

definition resolve :: "location list \<Rightarrow> string \<Rightarrow> json option" where
  "resolve recs q =
     (case find (equals_ignoring_case q) recs of
        Some r \<Rightarrow> Some (loc_id r)
      | None \<Rightarrow> map_option loc_id (find (contains_ignoring_case q) recs))"

subsection \<open>The fields of an hourly report\<close>

text \<open>
  The text in the slot of an optional field: the placeholder when the report has no such
  key, the text of the value otherwise. The weather slot holds the description of the
  weather code, and of the code \<^verbatim>\<open>NA\<close> when the report has none. The values of a report
  can be shown when none holds an integer beyond the limit of digits, and the weather
  code can be described when moreover it is no infinity. \<open>without k r\<close> is the report
  \<open>r\<close> with the field \<open>k\<close> missing.
\<close>

definition field_text :: "(string \<times> json) list \<Rightarrow> string \<Rightarrow> string" where
  "field_text r k = (case map_of r k of None \<Rightarrow> ''N/A'' | Some v \<Rightarrow> py_text v)"

definition weather_code :: "(string \<times> json) list \<Rightarrow> json" where
  "weather_code r = (case map_of r ''W'' of None \<Rightarrow> JStr ''NA'' | Some v \<Rightarrow> v)"

definition is_infinity :: "json \<Rightarrow> bool" where
  "is_infinity v = (case v of JFloat (Infinite negative) \<Rightarrow> True | _ \<Rightarrow> False)"

definition fields_shown :: "(string \<times> json) list \<Rightarrow> bool" where
  "fields_shown r = (list_all (\<lambda>kv. within_limit (snd kv)) r \<and> \<not> is_infinity (weather_code r))"

definition without :: "string \<Rightarrow> (string \<times> json) list \<Rightarrow> (string \<times> json) list" where
  "without k r = filter (\<lambda>kv. fst kv \<noteq> k) r"

text \<open>
  The date of a period with a zone marker at its end removed, in the words of the
  specification, and the header of the section of a date.
\<close>

definition strip_trailing_zone :: "string \<Rightarrow> string" where
  "strip_trailing_zone s = (if s \<noteq> [] \<and> last s = CHR ''Z'' then butlast s else s)"

definition section_header :: "string \<Rightarrow> string" where
  "section_header date = ''\<newline>=== '' @ date @ '' ===''"

text \<open>The parameters that the caller of the request passed.\<close>

definition supplied :: "params option \<Rightarrow> params" where
  "supplied ps = (case ps of None \<Rightarrow> [] | Some p \<Rightarrow> p)"

section \<open>Properties of the weather code table\<close>

lemma in_table:
  assumes "0 \<le> n" "n \<le> 30"
  shows "\<exists>d. map_of WEATHER_CODES (KInt n) = Some d"
proof -
  from assms have "n \<in> {0..30}" by simp
  also have "{0..30::int} = set [0..30]" by simp
  finally have "n \<in> set [0..30]" .
  then show ?thesis
    by (simp add: upto.simps WEATHER_CODES_def) (elim disjE; simp)
qed

lemma not_in_table:
  assumes "\<not> (0 \<le> n \<and> n \<le> 30)"
  shows "map_of WEATHER_CODES (KInt n) = None"
  using assms by (auto simp add: WEATHER_CODES_def)

lemma str_table:
  "map_of WEATHER_CODES (KStr s) = (if s = ''NA'' then Some ''Not available'' else None)"
  by (simp add: WEATHER_CODES_def)

lemma py_str_JStr: "py_str (JStr s) = Inr s"
  by (simp add: py_str_def py_text_def)

lemma py_str_JInt:
  "py_str (JInt n) = (if digit_count n \<le> max_str_digits then Inr (show_int n) else Inl str_limit_error)"
  by (simp add: py_str_def py_text_def)

lemma literal_errors:
  "is_value_error (invalid_literal s)" "is_value_error (int_limit_error n)"
  by (simp_all add: invalid_literal_def int_limit_error_def is_value_error_def)

lemma py_unsigned_value_error: "py_unsigned s body = Inl e \<Longrightarrow> is_value_error e"
  unfolding py_unsigned_def Let_def
  by (auto simp add: literal_errors split: if_splits)

lemma int_of_str_value_error:
  assumes "int_of_str s = Inl e"
  shows "is_value_error e"
proof (cases "py_strip s")
  case Nil
  with assms show ?thesis by (auto simp add: int_of_str_def literal_errors)
next
  case (Cons c cs)
  have "is_value_error e" if "bind (py_unsigned s body) f = Inl e" and "\<And>n. \<exists>i. f n = Inr i"
    for body and f :: "nat \<Rightarrow> py_error + int"
  proof (cases "py_unsigned s body")
    case (Inl e')
    with that(1) have "e' = e" by (simp add: bind_def)
    with Inl show ?thesis by (simp add: py_unsigned_value_error)
  next
    case (Inr n)
    with that(1) have "f n = Inl e" by (simp add: bind_def)
    moreover from that(2) obtain i where "f n = Inr i" by blast
    ultimately show ?thesis by simp
  qed
  note bound = this
  show ?thesis
  proof (cases "c = CHR ''-''")
    case True
    with assms Cons have "bind (py_unsigned s cs) (\<lambda>n. Inr (- int n)) = Inl e"
      by (simp add: int_of_str_def)
    then show ?thesis by (rule bound) simp
  next
    case False
    show ?thesis
    proof (cases "c = CHR ''+''")
      case True
      with assms Cons have "bind (py_unsigned s cs) (\<lambda>n. Inr (int n)) = Inl e"
        by (simp add: int_of_str_def)
      then show ?thesis by (rule bound) simp
    next
      case plus: False
      with False assms Cons have "bind (py_unsigned s (c # cs)) (\<lambda>n. Inr (int n)) = Inl e"
        by (simp add: int_of_str_def)
      then show ?thesis by (rule bound) simp
    qed
  qed
qed

lemma show_nat_length_small: "n < 100 \<Longrightarrow> length (show_nat n) \<le> 2"
proof -
  assume a: "n < 100"
  show ?thesis
  proof (cases "n < 10")
    case True
    then show ?thesis by (subst show_nat.simps) simp
  next
    case False
    with a have "n div 10 < 10" by simp
    then have "show_nat (n div 10) = [digit_char (n div 10)]"
      by (subst show_nat.simps) simp
    with False show ?thesis by (subst show_nat.simps) simp
  qed
qed

lemma digit_count_small: "\<bar>n\<bar> < 100 \<Longrightarrow> digit_count n \<le> max_str_digits"
proof -
  assume "\<bar>n\<bar> < 100"
  then have "nat \<bar>n\<bar> < 100" by simp
  from show_nat_length_small [OF this] show ?thesis
    by (simp add: digit_count_def max_str_digits_def)
qed

lemma description_of_str:
  "get_weather_description (JStr s) =
     (case int_of_str s of
        Inr n \<Rightarrow> Inr (codes_get (KInt n) (''Unknown code: '' @ s))
      | Inl e \<Rightarrow> Inr (codes_get (KStr s) (''Unknown code: '' @ s)))"
proof (cases "int_of_str s")
  case (Inl e)
  then have "is_value_error e" by (rule int_of_str_value_error)
  with Inl show ?thesis
    by (simp add: get_weather_description_def description_by_int_def description_by_text_def
        py_int_def bind_def py_str_JStr)
next
  case (Inr n)
  then show ?thesis
    by (simp add: get_weather_description_def description_by_int_def py_int_def bind_def
        py_str_JStr)
qed

lemma description_of_int:
  "get_weather_description (JInt n) =
     (if digit_count n \<le> max_str_digits
      then Inr (codes_get (KInt n) (''Unknown code: '' @ show_int n))
      else Inl str_limit_error)"
  by (simp add: get_weather_description_def description_by_int_def description_by_text_def
      py_int_def bind_def py_str_JInt str_limit_error_def is_value_error_def)

lemma int_of_str_NA: "\<exists>e. int_of_str ''NA'' = Inl e"
  by (simp add: int_of_str_def py_strip_def py_isspace_def code_point_def py_unsigned_def
      digit_or_underscore_def is_digit_def bind_def)

text \<open>
  Claim C3, as amended. A code that is an integer from 0 to 30, or a string that \<^verbatim>\<open>int\<close>
  reads as one, is described by the entry of the table for that integer, and the code
  \<^verbatim>\<open>NA\<close> by \<^verbatim>\<open>Not available\<close>. Every other string, and every other integer of at most
  4300 digits, is described by \<^verbatim>\<open>Unknown code: \<close> followed by the text of the code as it
  was given. For an integer of more digits the function raises the \<open>ValueError\<close> of the
  limit, because the text of the code is made before the table is read.
\<close>

theorem get_weather_description_table:
  "(0 \<le> n \<and> n \<le> 30 \<longrightarrow>
      Some (get_weather_description (JInt n)) = map_option Inr (map_of WEATHER_CODES (KInt n)))
   \<and> (0 \<le> n \<and> n \<le> 30 \<and> int_of_str s = Inr n \<longrightarrow>
      Some (get_weather_description (JStr s)) = map_option Inr (map_of WEATHER_CODES (KInt n)))
   \<and> get_weather_description (JStr ''NA'') = Inr ''Not available''
   \<and> (\<not> (0 \<le> n \<and> n \<le> 30) \<and> digit_count n \<le> max_str_digits \<longrightarrow>
      get_weather_description (JInt n) = Inr (''Unknown code: '' @ show_int n))
   \<and> (max_str_digits < digit_count n \<longrightarrow>
      get_weather_description (JInt n) = Inl str_limit_error)
   \<and> (s \<noteq> ''NA'' \<and> (\<forall>k. int_of_str s = Inr k \<longrightarrow> \<not> (0 \<le> k \<and> k \<le> 30)) \<longrightarrow>
      get_weather_description (JStr s) = Inr (''Unknown code: '' @ s))"
proof (intro conjI impI)
  assume a: "0 \<le> n \<and> n \<le> 30"
  then obtain d where "map_of WEATHER_CODES (KInt n) = Some d"
    using in_table by blast
  moreover from a have "digit_count n \<le> max_str_digits"
    by (intro digit_count_small) simp
  ultimately show "Some (get_weather_description (JInt n)) =
      map_option Inr (map_of WEATHER_CODES (KInt n))"
    by (simp add: description_of_int codes_get_def)
next
  assume a: "0 \<le> n \<and> n \<le> 30 \<and> int_of_str s = Inr n"
  then obtain d where "map_of WEATHER_CODES (KInt n) = Some d"
    using in_table by blast
  with a show "Some (get_weather_description (JStr s)) =
      map_option Inr (map_of WEATHER_CODES (KInt n))"
    by (simp add: description_of_str codes_get_def)
next
  from int_of_str_NA show "get_weather_description (JStr ''NA'') = Inr ''Not available''"
    by (auto simp add: description_of_str codes_get_def str_table)
next
  assume a: "\<not> (0 \<le> n \<and> n \<le> 30) \<and> digit_count n \<le> max_str_digits"
  then have "map_of WEATHER_CODES (KInt n) = None"
    by (simp add: not_in_table)
  with a show "get_weather_description (JInt n) = Inr (''Unknown code: '' @ show_int n)"
    by (simp add: description_of_int codes_get_def)
next
  assume "max_str_digits < digit_count n"
  then show "get_weather_description (JInt n) = Inl str_limit_error"
    by (simp add: description_of_int)
next
  assume a: "s \<noteq> ''NA'' \<and> (\<forall>k. int_of_str s = Inr k \<longrightarrow> \<not> (0 \<le> k \<and> k \<le> 30))"
  show "get_weather_description (JStr s) = Inr (''Unknown code: '' @ s)"
  proof (cases "int_of_str s")
    case (Inl e)
    with a show ?thesis
      by (simp add: description_of_str codes_get_def str_table)
  next
    case (Inr k)
    with a have "map_of WEATHER_CODES (KInt k) = None"
      by (simp add: not_in_table)
    with Inr show ?thesis
      by (simp add: description_of_str codes_get_def)
  qed
qed

lemma int_of_str_12: "int_of_str ''12'' = Inr 12"
  by (simp add: int_of_str_def py_strip_def py_isspace_def code_point_def py_unsigned_def
      digit_or_underscore_def is_digit_def digit_val_def digits_value_def max_str_digits_def
      bind_def)

lemma int_of_str_separator: "\<exists>e. int_of_str [CHR 0x1F, CHR ''1'', CHR ''2''] = Inl e"
  by (simp add: int_of_str_def py_strip_def py_isspace_def code_point_def py_unsigned_def
      digit_or_underscore_def is_digit_def bind_def)

lemma int_of_str_rain: "\<exists>e. int_of_str ''rain'' = Inl e"
  by (simp add: int_of_str_def py_strip_def py_isspace_def code_point_def py_unsigned_def
      digit_or_underscore_def is_digit_def bind_def)

lemma show_int_31: "show_int 31 = ''31''"
  by (simp add: show_int_def digit_char_def)

theorem get_weather_description_table_witness:
  "get_weather_description (JInt 12) = Inr ''Light rain''
   \<and> get_weather_description (JStr ''12'') = Inr ''Light rain''
   \<and> get_weather_description (JInt 31) = Inr ''Unknown code: 31''
   \<and> get_weather_description (JStr ''rain'') = Inr ''Unknown code: rain''
   \<and> get_weather_description (JStr ([CHR 0x1F] @ ''12'')) =
       Inr (''Unknown code: '' @ [CHR 0x1F] @ ''12'')"
proof -
  have small: "digit_count 31 \<le> max_str_digits" by (intro digit_count_small) simp
  from int_of_str_rain obtain e where rain: "int_of_str ''rain'' = Inl e" by blast
  from int_of_str_separator obtain e' where
    separator: "int_of_str [CHR 0x1F, CHR ''1'', CHR ''2''] = Inl e'" by blast
  show ?thesis
    using get_weather_description_table [of 12 "''12''"]
      get_weather_description_table [of 31 "''rain''"]
      get_weather_description_table [of 31 "[CHR 0x1F] @ ''12''"]
    by (simp add: int_of_str_12 rain separator show_int_31 small WEATHER_CODES_def)
qed

lemma show_nat_power10: "length (show_nat (10 ^ k)) = Suc k"
proof (induction k)
  case 0
  show ?case by (subst show_nat.simps) simp
next
  case (Suc k)
  have "\<not> (10::nat) ^ Suc k < 10" by simp
  then have "show_nat (10 ^ Suc k) =
               show_nat (10 ^ Suc k div 10) @ [digit_char (10 ^ Suc k mod 10)]"
    by (subst show_nat.simps) (simp only: if_False)
  also have "(10::nat) ^ Suc k div 10 = 10 ^ k" by simp
  finally show ?case using Suc.IH by simp
qed

lemma digit_count_power10: "digit_count (10 ^ k) = Suc k"
proof -
  have "nat \<bar>(10::int) ^ k\<bar> = 10 ^ k" by (simp add: nat_power_eq)
  then show ?thesis by (simp only: digit_count_def show_nat_power10)
qed

text \<open>
  The integer \<open>10 ^ 4300\<close> has 4301 digits: the function raises and describes nothing.
\<close>

theorem long_integer_counterexample:
  "get_weather_description (JInt (10 ^ 4300)) = Inl str_limit_error"
proof -
  have "digit_count (10 ^ 4300) = Suc 4300" by (rule digit_count_power10)
  moreover have "max_str_digits < Suc 4300" by (simp add: max_str_digits_def)
  ultimately have "\<not> digit_count (10 ^ 4300) \<le> max_str_digits" by (simp only: not_le)
  then show ?thesis by (simp only: description_of_int if_False)
qed

section \<open>Properties of the block of an hourly report\<close>

lemma digit_char_digit:
  assumes "n < 10"
  shows "is_digit (digit_char n) \<and> digit_val (digit_char n) = n"
proof -
  from assms have "n \<in> set [0..<10]" by simp
  then show ?thesis
    by (simp add: upt_rec digit_char_def is_digit_def digit_val_def code_point_def)
       (elim disjE; simp)
qed

lemma show_nat_two_digits:
  assumes "10 \<le> n" "n < 100"
  shows "show_nat n = [digit_char (n div 10), digit_char (n mod 10)]"
proof -
  from assms have "n div 10 < 10" by simp
  then have "show_nat (n div 10) = [digit_char (n div 10)]"
    by (subst show_nat.simps) simp
  with assms show ?thesis
    by (subst show_nat.simps) simp
qed

lemma show_nat_one_digit: "n < 10 \<Longrightarrow> show_nat n = [digit_char n]"
  by (subst show_nat.simps) simp

lemma format_02d_two_digits:
  assumes "0 \<le> i" "i < 100"
  shows "format_02d i = [digit_char (nat i div 10), digit_char (nat i mod 10)]"
proof (cases "i < 10")
  case True
  with assms have "nat i < 10" "nat i div 10 = 0" "nat i mod 10 = nat i" by simp_all
  with True assms show ?thesis
    by (simp add: format_02d_def show_int_def show_nat_one_digit digit_char_def)
next
  case False
  with assms have "10 \<le> nat i" "nat i < 100" by simp_all
  then have "show_nat (nat i) = [digit_char (nat i div 10), digit_char (nat i mod 10)]"
    by (rule show_nat_two_digits)
  with False assms show ?thesis
    by (simp add: format_02d_def show_int_def)
qed

lemma two_digits:
  assumes "0 \<le> i" "i < 100"
  shows "\<exists>c d. format_02d i = [c, d] \<and> is_digit c \<and> is_digit d
           \<and> int (10 * digit_val c + digit_val d) = i"
proof -
  let ?n = "nat i"
  have lt: "?n div 10 < 10" "?n mod 10 < 10" using assms by simp_all
  have shown: "format_02d i = [digit_char (?n div 10), digit_char (?n mod 10)]"
    using assms by (rule format_02d_two_digits)
  have "10 * (?n div 10) + ?n mod 10 = ?n" by simp
  then have val: "int (10 * (?n div 10) + ?n mod 10) = i"
    using assms by simp
  from digit_char_digit [OF lt(1)] digit_char_digit [OF lt(2)] val
  have "is_digit (digit_char (?n div 10)) \<and> is_digit (digit_char (?n mod 10))
        \<and> int (10 * digit_val (digit_char (?n div 10)) + digit_val (digit_char (?n mod 10))) = i"
    by simp
  with shown show ?thesis by blast
qed

lemma bind_Inr: "bind (Inr x) f = f x"
  by (simp add: bind_def)

lemma bind_eq_Inr: "bind m f = Inr y \<longleftrightarrow> (\<exists>x. m = Inr x \<and> f x = Inr y)"
  by (cases m) (simp_all add: bind_def)

lemma time_text_shown:
  "time_text m =
     (if digit_count (m div 60) \<le> max_str_digits
      then Inr (format_02d (m div 60) @ '':'' @ format_02d (m mod 60))
      else Inl str_limit_error)"
proof -
  have "\<bar>m mod 60\<bar> < 100" by simp
  then have "digit_count (m mod 60) \<le> max_str_digits" by (rule digit_count_small)
  then show ?thesis
    by (simp add: time_text_def py_format_02d_def bind_def Let_def)
qed

lemma py_get_dict:
  "py_get (JDict r) k dflt = Inr (case map_of r k of None \<Rightarrow> dflt | Some v \<Rightarrow> v)"
  by (simp add: py_get_def split: option.split)

lemma format_rep_dict:
  assumes "map_of r ''$'' = Some t" "py_int t = Inr m"
  shows "format_rep (JDict r) =
     bind (time_text m) (\<lambda>time_str.
     bind (get_weather_description (weather_code r)) (\<lambda>weather_desc.
     bind (py_str (case map_of r ''T'' of None \<Rightarrow> JStr ''N/A'' | Some v \<Rightarrow> v)) (\<lambda>temp_shown.
     bind (py_str (case map_of r ''H'' of None \<Rightarrow> JStr ''N/A'' | Some v \<Rightarrow> v)) (\<lambda>humidity_shown.
     bind (py_str (case map_of r ''P'' of None \<Rightarrow> JStr ''N/A'' | Some v \<Rightarrow> v)) (\<lambda>pressure_shown.
     bind (py_str (case map_of r ''S'' of None \<Rightarrow> JStr ''N/A'' | Some v \<Rightarrow> v)) (\<lambda>wind_speed_shown.
     bind (py_str (case map_of r ''D'' of None \<Rightarrow> JStr ''N/A'' | Some v \<Rightarrow> v)) (\<lambda>wind_dir_shown.
     bind (py_str (case map_of r ''G'' of None \<Rightarrow> JStr ''N/A'' | Some v \<Rightarrow> v)) (\<lambda>wind_gust_shown.
     bind (py_str (case map_of r ''V'' of None \<Rightarrow> JStr ''N/A'' | Some v \<Rightarrow> v)) (\<lambda>visibility_shown.
     bind (py_str (case map_of r ''Dp'' of None \<Rightarrow> JStr ''N/A'' | Some v \<Rightarrow> v)) (\<lambda>dew_point_shown.
       Inr (observation_text
              \<lparr>time_slot = time_str,
               temp_slot = temp_shown,
               weather_slot = weather_desc,
               humidity_slot = humidity_shown,
               pressure_slot = pressure_shown,
               wind_speed_slot = wind_speed_shown,
               wind_dir_slot = wind_dir_shown,
               wind_gust_slot = wind_gust_shown,
               visibility_slot = visibility_shown,
               dew_point_slot = dew_point_shown\<rparr>)))))))))))"
  using assms
  by (simp add: format_rep_def py_getitem_def py_get_dict bind_Inr weather_code_def)

lemma block_starts_with_time:
  assumes "map_of r ''$'' = Some t" "py_int t = Inr m" "format_rep (JDict r) = Inr block"
  shows "\<exists>rest. block = ''\<newline>'' @ format_02d (m div 60) @ '':'' @ format_02d (m mod 60)
                   @ '' - Temp: '' @ rest"
proof (cases "time_text m")
  case (Inl e)
  with assms(3) show ?thesis
    unfolding format_rep_dict [OF assms(1,2)] by (simp add: bind_def)
next
  case (Inr time_str)
  then have shown: "time_str = format_02d (m div 60) @ '':'' @ format_02d (m mod 60)"
    by (simp add: time_text_shown split: if_splits)
  from assms(3) Inr show ?thesis
    unfolding format_rep_dict [OF assms(1,2)] bind_Inr
    by (auto simp add: bind_eq_Inr observation_text_def shown)
qed

lemma py_int_error:
  assumes "py_int v = Inl e"
  shows "is_value_error e \<or> e = TypeError \<or> is_infinity v"
proof (cases v)
  case (JStr s)
  with assms have "int_of_str s = Inl e" by (simp add: py_int_def)
  then show ?thesis by (simp add: int_of_str_value_error)
next
  case (JFloat x)
  with assms show ?thesis
    by (cases x) (auto simp add: py_int_def int_of_float_def is_infinity_def is_value_error_def)
qed (use assms in \<open>auto simp add: py_int_def split: if_splits\<close>)

lemma description_total:
  assumes "within_limit v" "\<not> is_infinity v"
  shows "\<exists>w. get_weather_description v = Inr w"
proof (cases "py_int v")
  case (Inr n)
  with assms(1) show ?thesis
    by (simp add: get_weather_description_def description_by_int_def bind_def py_str_def)
next
  case (Inl e)
  from py_int_error [OF this] assms(2) have "is_value_error e \<or> e = TypeError" by simp
  with Inl assms(1) show ?thesis
    by (simp add: get_weather_description_def description_by_int_def description_by_text_def
        bind_def py_str_def)
qed

lemma field_within:
  assumes "list_all (\<lambda>kv. within_limit (snd kv)) r"
  shows "within_limit (case map_of r k of None \<Rightarrow> JStr d | Some v \<Rightarrow> v)"
proof (cases "map_of r k")
  case None
  then show ?thesis by simp
next
  case (Some v)
  then have "(k, v) \<in> set r" by (rule map_of_SomeD)
  with assms have "within_limit v" by (auto simp add: list_all_iff)
  with Some show ?thesis by simp
qed

lemma py_str_field:
  assumes "list_all (\<lambda>kv. within_limit (snd kv)) r"
  shows "py_str (case map_of r k of None \<Rightarrow> JStr ''N/A'' | Some v \<Rightarrow> v) = Inr (field_text r k)"
  using field_within [OF assms, where k = k and d = "''N/A''"]
  by (simp add: py_str_def field_text_def py_text_def split: option.splits)

lemma format_rep_shown:
  assumes "map_of r ''$'' = Some t" "py_int t = Inr m"
    and "digit_count (m div 60) \<le> max_str_digits"
    and "list_all (\<lambda>kv. within_limit (snd kv)) r"
    and "get_weather_description (weather_code r) = Inr w"
  shows "format_rep (JDict r) =
     Inr (observation_text
            \<lparr>time_slot = format_02d (m div 60) @ '':'' @ format_02d (m mod 60),
             temp_slot = field_text r ''T'',
             weather_slot = w,
             humidity_slot = field_text r ''H'',
             pressure_slot = field_text r ''P'',
             wind_speed_slot = field_text r ''S'',
             wind_dir_slot = field_text r ''D'',
             wind_gust_slot = field_text r ''G'',
             visibility_slot = field_text r ''V'',
             dew_point_slot = field_text r ''Dp''\<rparr>)"
  unfolding format_rep_dict [OF assms(1,2)]
  using assms(3,5)
  by (simp add: time_text_shown bind_Inr py_str_field [OF assms(4)])

text \<open>
  Claim C4. The time of an hourly report is a number \<open>m\<close> of minutes since midnight. Every
  block that the formatter makes of the report starts with the hours \<open>m div 60\<close> and the
  minutes \<open>m mod 60\<close>, each in the format \<^verbatim>\<open>02d\<close>, with a colon between them. A block is
  made whenever the fields of the report can be shown and the hours are within the limit
  of digits. The minutes are always two digits that denote \<open>m mod 60\<close>; the hours are two
  digits that denote \<open>m div 60\<close> for every time from 0 up to 5999, which covers the
  minutes of a day.
\<close>

theorem time_rendering:
  assumes "py_getitem rep ''$'' = Inr t" and "py_int t = Inr m"
  shows "(\<forall>block. format_rep rep = Inr block \<longrightarrow>
            (\<exists>rest. block = ''\<newline>'' @ format_02d (m div 60) @ '':'' @ format_02d (m mod 60)
                       @ '' - Temp: '' @ rest))
         \<and> (\<forall>r. rep = JDict r \<and> fields_shown r \<and> digit_count (m div 60) \<le> max_str_digits \<longrightarrow>
              (\<exists>block. format_rep rep = Inr block))
         \<and> (\<exists>c d. format_02d (m mod 60) = [c, d] \<and> is_digit c \<and> is_digit d
               \<and> int (10 * digit_val c + digit_val d) = m mod 60)
         \<and> (0 \<le> m \<and> m < 6000 \<longrightarrow>
              digit_count (m div 60) \<le> max_str_digits
              \<and> (\<exists>a b. format_02d (m div 60) = [a, b] \<and> is_digit a \<and> is_digit b
                    \<and> int (10 * digit_val a + digit_val b) = m div 60))"
proof (intro conjI impI allI)
  from assms(1) obtain r where rep: "rep = JDict r" and t: "map_of r ''$'' = Some t"
    by (auto simp add: py_getitem_def split: json.splits option.splits)
  {
    fix block
    assume "format_rep rep = Inr block"
    then have "format_rep (JDict r) = Inr block" by (simp add: rep)
    with t assms(2)
    show "\<exists>rest. block = ''\<newline>'' @ format_02d (m div 60) @ '':'' @ format_02d (m mod 60)
                       @ '' - Temp: '' @ rest"
      by (rule block_starts_with_time)
  }
  {
    fix r'
    assume a: "rep = JDict r' \<and> fields_shown r' \<and> digit_count (m div 60) \<le> max_str_digits"
    with rep have r': "r' = r" by simp
    from a have within: "list_all (\<lambda>kv. within_limit (snd kv)) r"
      and finite: "\<not> is_infinity (weather_code r)"
      by (simp_all add: r' fields_shown_def)
    from within have "within_limit (weather_code r)"
      unfolding weather_code_def by (rule field_within)
    from description_total [OF this finite] obtain w where
      "get_weather_description (weather_code r) = Inr w" by blast
    from format_rep_shown [OF t assms(2) _ within this] a
    show "\<exists>block. format_rep rep = Inr block" by (simp add: rep)
  }
next
  have "0 \<le> m mod 60" "m mod 60 < 100" by simp_all
  then show "\<exists>c d. format_02d (m mod 60) = [c, d] \<and> is_digit c \<and> is_digit d
               \<and> int (10 * digit_val c + digit_val d) = m mod 60"
    by (rule two_digits)
next
  assume "0 \<le> m \<and> m < 6000"
  then have "\<bar>m div 60\<bar> < 100" by arith
  then show "digit_count (m div 60) \<le> max_str_digits" by (rule digit_count_small)
next
  assume "0 \<le> m \<and> m < 6000"
  then have "0 \<le> m div 60" and "m div 60 < 100" by arith+
  then show "\<exists>a b. format_02d (m div 60) = [a, b] \<and> is_digit a \<and> is_digit b
                 \<and> int (10 * digit_val a + digit_val b) = m div 60"
    by (rule two_digits)
qed

lemma int_of_str_90: "int_of_str ''90'' = Inr 90"
  by (simp add: int_of_str_def py_strip_def py_isspace_def code_point_def py_unsigned_def
      digit_or_underscore_def is_digit_def digit_val_def digits_value_def max_str_digits_def
      bind_def)

lemma format_02d_1: "format_02d 1 = ''01''"
  by (simp add: format_02d_def show_int_def digit_char_def)

lemma format_02d_30: "format_02d 30 = ''30''"
  by (simp add: format_02d_def show_int_def digit_char_def)

theorem time_rendering_witness:
  "py_getitem (JDict [(''$'', JStr ''90'')]) ''$'' = Inr (JStr ''90'')
   \<and> py_int (JStr ''90'') = Inr 90
   \<and> (\<exists>rest. format_rep (JDict [(''$'', JStr ''90'')]) = Inr (''\<newline>01:30 - Temp: '' @ rest))"
proof -
  let ?r = "[(''$'', JStr ''90'')]"
  have a: "py_getitem (JDict ?r) ''$'' = Inr (JStr ''90'')"
    by (simp add: py_getitem_def)
  have b: "py_int (JStr ''90'') = Inr 90"
    by (simp add: py_int_def int_of_str_90)
  have c: "fields_shown ?r"
    by (simp add: fields_shown_def weather_code_def is_infinity_def)
  have d: "digit_count (90 div 60) \<le> max_str_digits"
    by (intro digit_count_small) simp
  from time_rendering [OF a b] c d obtain block where
    block: "format_rep (JDict ?r) = Inr block" by blast
  with time_rendering [OF a b] obtain rest where
    "block = ''\<newline>'' @ format_02d (90 div 60) @ '':'' @ format_02d (90 mod 60)
             @ '' - Temp: '' @ rest" by blast
  then have "block = ''\<newline>01:30 - Temp: '' @ rest"
    by (simp add: format_02d_1 format_02d_30)
  with a b block show ?thesis by blast
qed

lemma map_of_without:
  "map_of (without k r) k' = (if k' = k then None else map_of r k')"
  by (induction r) (auto simp add: without_def)

lemma field_text_without:
  "field_text (without k r) k' = (if k = k' then ''N/A'' else field_text r k')"
  by (simp add: field_text_def map_of_without)

lemma weather_code_without:
  "weather_code (without k r) = (if k = ''W'' then JStr ''NA'' else weather_code r)"
  by (simp add: weather_code_def map_of_without)

lemma weather_NA: "get_weather_description (JStr ''NA'') = Inr ''Not available''"
  using int_of_str_NA by (auto simp add: description_of_str codes_get_def str_table)

lemma within_without:
  "list_all (\<lambda>kv. within_limit (snd kv)) r \<Longrightarrow>
   list_all (\<lambda>kv. within_limit (snd kv)) (without k r)"
  by (simp add: without_def list_all_iff)

text \<open>
  Claim C5, as amended. Take a report whose time is a number and whose values can be
  written, and leave out one of its optional fields. The block of the report is the
  template with the same time and the same text in every other slot, and in the slot of
  the missing field \<^verbatim>\<open>N/A\<close> for the temperature, humidity, pressure, wind speed, gust,
  direction, visibility and dew point, and \<^verbatim>\<open>Not available\<close>, the description of the code
  \<^verbatim>\<open>NA\<close>, for the weather code. Both blocks are spelled out, so that the theorem fixes
  the template too.
\<close>

theorem optional_fields:
  assumes "map_of r ''$'' = Some t" and "py_int t = Inr m"
    and "digit_count (m div 60) \<le> max_str_digits"
    and "list_all (\<lambda>kv. within_limit (snd kv)) r"
    and "get_weather_description (weather_code r) = Inr w"
    and "k \<noteq> ''$''"
  shows "format_rep (JDict r) =
           Inr (''\<newline>'' @ format_02d (m div 60) @ '':'' @ format_02d (m mod 60)
                @ '' - Temp: '' @ field_text r ''T'' @ [CHR 0xB0] @ ''C, Weather: '' @ w
                @ ''\<newline>         Humidity: '' @ field_text r ''H''
                @ ''%, Pressure: '' @ field_text r ''P'' @ ''hPa''
                @ ''\<newline>         Wind: '' @ field_text r ''S''
                @ ''mph from '' @ field_text r ''D''
                @ '' (gusts '' @ field_text r ''G'' @ ''mph)''
                @ ''\<newline>         Visibility: '' @ field_text r ''V''
                @ ''m, Dew Point: '' @ field_text r ''Dp'' @ [CHR 0xB0] @ ''C'')
         \<and> format_rep (JDict (without k r)) =
           Inr (''\<newline>'' @ format_02d (m div 60) @ '':'' @ format_02d (m mod 60)
                @ '' - Temp: '' @ (if k = ''T'' then ''N/A'' else field_text r ''T'')
                @ [CHR 0xB0] @ ''C, Weather: ''
                @ (if k = ''W'' then ''Not available'' else w)
                @ ''\<newline>         Humidity: ''
                @ (if k = ''H'' then ''N/A'' else field_text r ''H'')
                @ ''%, Pressure: '' @ (if k = ''P'' then ''N/A'' else field_text r ''P'')
                @ ''hPa''
                @ ''\<newline>         Wind: ''
                @ (if k = ''S'' then ''N/A'' else field_text r ''S'')
                @ ''mph from '' @ (if k = ''D'' then ''N/A'' else field_text r ''D'')
                @ '' (gusts '' @ (if k = ''G'' then ''N/A'' else field_text r ''G'') @ ''mph)''
                @ ''\<newline>         Visibility: ''
                @ (if k = ''V'' then ''N/A'' else field_text r ''V'')
                @ ''m, Dew Point: '' @ (if k = ''Dp'' then ''N/A'' else field_text r ''Dp'')
                @ [CHR 0xB0] @ ''C'')"
proof
  show "format_rep (JDict r) =
           Inr (''\<newline>'' @ format_02d (m div 60) @ '':'' @ format_02d (m mod 60)
                @ '' - Temp: '' @ field_text r ''T'' @ [CHR 0xB0] @ ''C, Weather: '' @ w
                @ ''\<newline>         Humidity: '' @ field_text r ''H''
                @ ''%, Pressure: '' @ field_text r ''P'' @ ''hPa''
                @ ''\<newline>         Wind: '' @ field_text r ''S''
                @ ''mph from '' @ field_text r ''D''
                @ '' (gusts '' @ field_text r ''G'' @ ''mph)''
                @ ''\<newline>         Visibility: '' @ field_text r ''V''
                @ ''m, Dew Point: '' @ field_text r ''Dp'' @ [CHR 0xB0] @ ''C'')"
    unfolding format_rep_shown [OF assms(1-5)] by (simp add: observation_text_def)
next
  let ?r = "without k r"
  from assms(1,6) have time: "map_of ?r ''$'' = Some t"
    by (simp add: map_of_without)
  from assms(4) have within: "list_all (\<lambda>kv. within_limit (snd kv)) ?r"
    by (rule within_without)
  from assms(5) have weather:
    "get_weather_description (weather_code ?r) = Inr (if k = ''W'' then ''Not available'' else w)"
    by (simp add: weather_code_without weather_NA)
  show "format_rep (JDict ?r) =
           Inr (''\<newline>'' @ format_02d (m div 60) @ '':'' @ format_02d (m mod 60)
                @ '' - Temp: '' @ (if k = ''T'' then ''N/A'' else field_text r ''T'')
                @ [CHR 0xB0] @ ''C, Weather: ''
                @ (if k = ''W'' then ''Not available'' else w)
                @ ''\<newline>         Humidity: ''
                @ (if k = ''H'' then ''N/A'' else field_text r ''H'')
                @ ''%, Pressure: '' @ (if k = ''P'' then ''N/A'' else field_text r ''P'')
                @ ''hPa''
                @ ''\<newline>         Wind: ''
                @ (if k = ''S'' then ''N/A'' else field_text r ''S'')
                @ ''mph from '' @ (if k = ''D'' then ''N/A'' else field_text r ''D'')
                @ '' (gusts '' @ (if k = ''G'' then ''N/A'' else field_text r ''G'') @ ''mph)''
                @ ''\<newline>         Visibility: ''
                @ (if k = ''V'' then ''N/A'' else field_text r ''V'')
                @ ''m, Dew Point: '' @ (if k = ''Dp'' then ''N/A'' else field_text r ''Dp'')
                @ [CHR 0xB0] @ ''C'')"
    unfolding format_rep_shown [OF time assms(2,3) within weather] field_text_without
    by (simp only: observation_text_def slots.simps append_assoc)
qed

theorem optional_fields_witness:
  "format_rep (JDict [(''$'', JStr ''90''), (''T'', JStr ''15.2'')]) =
     Inr (''\<newline>01:30 - Temp: 15.2'' @ [CHR 0xB0] @ ''C, Weather: Not available''
          @ ''\<newline>         Humidity: N/A%, Pressure: N/AhPa''
          @ ''\<newline>         Wind: N/Amph from N/A (gusts N/Amph)''
          @ ''\<newline>         Visibility: N/Am, Dew Point: N/A'' @ [CHR 0xB0] @ ''C'')"
proof -
  let ?r = "[(''$'', JStr ''90''), (''T'', JStr ''15.2''), (''H'', JStr ''80.1'')]"
  have a: "map_of ?r ''$'' = Some (JStr ''90'')" by simp
  have b: "py_int (JStr ''90'') = Inr 90" by (simp add: py_int_def int_of_str_90)
  have c: "digit_count (90 div 60) \<le> max_str_digits" by (intro digit_count_small) simp
  have d: "list_all (\<lambda>kv. within_limit (snd kv)) ?r" by simp
  have e: "get_weather_description (weather_code ?r) = Inr ''Not available''"
    by (simp add: weather_code_def weather_NA)
  have f: "''H'' \<noteq> ''$''" by simp
  have g: "without ''H'' ?r = [(''$'', JStr ''90''), (''T'', JStr ''15.2'')]"
    by (simp add: without_def)
  show ?thesis
    using optional_fields [OF a b c d e f, THEN conjunct2]
    by (simp add: g field_text_def py_text_def format_02d_1 format_02d_30)
qed

text \<open>
  A report that has only its time: the weather slot reads \<^verbatim>\<open>Not available\<close> and not
  \<^verbatim>\<open>N/A\<close>.
\<close>

lemma format_rep_time_only:
  "format_rep (JDict [(''$'', JInt 90)]) =
     Inr (''\<newline>01:30 - Temp: N/A'' @ [CHR 0xB0] @ ''C, Weather: Not available''
          @ ''\<newline>         Humidity: N/A%, Pressure: N/AhPa''
          @ ''\<newline>         Wind: N/Amph from N/A (gusts N/Amph)''
          @ ''\<newline>         Visibility: N/Am, Dew Point: N/A'' @ [CHR 0xB0] @ ''C'')"
proof -
  let ?r = "[(''$'', JInt 90)]"
  have a: "map_of ?r ''$'' = Some (JInt 90)" by simp
  have b: "py_int (JInt 90) = Inr 90" by (simp add: py_int_def)
  have c: "digit_count (90 div 60) \<le> max_str_digits" by (intro digit_count_small) simp
  have d: "list_all (\<lambda>kv. within_limit (snd kv)) ?r"
    by (simp add: digit_count_small)
  have e: "get_weather_description (weather_code ?r) = Inr ''Not available''"
    by (simp add: weather_code_def weather_NA)
  show ?thesis
    unfolding format_rep_shown [OF a b c d e]
    by (simp add: observation_text_def field_text_def format_02d_1 format_02d_30)
qed

theorem missing_weather_code_counterexample:
  "format_rep (JDict [(''$'', JInt 90)]) =
     Inr (''\<newline>01:30 - Temp: N/A'' @ [CHR 0xB0] @ ''C, Weather: Not available''
          @ ''\<newline>         Humidity: N/A%, Pressure: N/AhPa''
          @ ''\<newline>         Wind: N/Amph from N/A (gusts N/Amph)''
          @ ''\<newline>         Visibility: N/Am, Dew Point: N/A'' @ [CHR 0xB0] @ ''C'')
   \<and> format_rep (JDict [(''$'', JInt 90)]) \<noteq>
     Inr (''\<newline>01:30 - Temp: N/A'' @ [CHR 0xB0] @ ''C, Weather: N/A''
          @ ''\<newline>         Humidity: N/A%, Pressure: N/AhPa''
          @ ''\<newline>         Wind: N/Amph from N/A (gusts N/Amph)''
          @ ''\<newline>         Visibility: N/Am, Dew Point: N/A'' @ [CHR 0xB0] @ ''C'')"
  unfolding format_rep_time_only by simp

section \<open>Properties of the header of a period\<close>

lemma format_reps_extends:
  "format_reps reps acc = Inr out \<Longrightarrow> \<exists>blocks. out = acc @ blocks \<and> length blocks = length reps"
proof (induction reps arbitrary: acc)
  case Nil
  then show ?case by simp
next
  case (Cons rep reps)
  from Cons.prems obtain b where b: "format_rep rep = Inr b"
    and rest: "format_reps reps (acc @ [b]) = Inr out"
    by (auto simp add: bind_def split: sum.splits)
  from Cons.IH [OF rest] obtain blocks where "out = (acc @ [b]) @ blocks"
    and "length blocks = length reps" by blast
  then have "out = acc @ (b # blocks) \<and> length (b # blocks) = length (rep # reps)" by simp
  then show ?case by blast
qed

text \<open>
  Claim C9, as amended. For a period whose date is a string, the formatter appends the
  header of the date with every \<^verbatim>\<open>Z\<close> removed, and then the blocks of the reports of the
  period. The cleaned date is the date without its \<^verbatim>\<open>Z\<close> characters, the other
  characters in their order; for a date that ends in its only \<^verbatim>\<open>Z\<close> this is the date
  without the marker at its end.
\<close>

theorem period_header:
  assumes "map_of p ''value'' = Some (JStr date)"
    and "map_of p ''Rep'' = Some (JList reps)"
  shows "format_period (JDict p) observations =
           format_reps reps (observations @ [section_header (py_replace_Z date)])
         \<and> (\<forall>out. format_period (JDict p) observations = Inr out \<longrightarrow>
               (\<exists>blocks. out = observations @ [section_header (py_replace_Z date)] @ blocks
                  \<and> length blocks = length reps))
         \<and> CHR ''Z'' \<notin> set (py_replace_Z date)
         \<and> py_replace_Z date = filter (\<lambda>c. c \<noteq> CHR ''Z'') date
         \<and> (\<forall>d. date = d @ ''Z'' \<and> CHR ''Z'' \<notin> set d \<longrightarrow> py_replace_Z date = d)"
proof (intro conjI allI impI)
  show eq: "format_period (JDict p) observations =
           format_reps reps (observations @ [section_header (py_replace_Z date)])"
    using assms
    by (simp add: format_period_def bind_def py_getitem_def py_str_method_def py_iter_def
        section_header_def)
  fix out
  assume "format_period (JDict p) observations = Inr out"
  with eq have "format_reps reps (observations @ [section_header (py_replace_Z date)]) = Inr out"
    by simp
  from format_reps_extends [OF this]
  show "\<exists>blocks. out = observations @ [section_header (py_replace_Z date)] @ blocks
                  \<and> length blocks = length reps"
    by simp
next
  show "CHR ''Z'' \<notin> set (py_replace_Z date)" by (simp add: py_replace_Z_def)
next
  show "py_replace_Z date = filter (\<lambda>c. c \<noteq> CHR ''Z'') date" by (simp add: py_replace_Z_def)
next
  fix d
  assume "date = d @ ''Z'' \<and> CHR ''Z'' \<notin> set d"
  then show "py_replace_Z date = d"
    by (auto simp add: py_replace_Z_def filter_id_conv)
qed

theorem period_header_witness:
  "format_period (JDict [(''value'', JStr ''2025-08-03Z''), (''Rep'', JList [])]) [''title''] =
     Inr [''title'', ''\<newline>=== 2025-08-03 ==='']"
proof -
  let ?p = "[(''value'', JStr ''2025-08-03Z''), (''Rep'', JList [])]"
  have a: "map_of ?p ''value'' = Some (JStr ''2025-08-03Z'')" by simp
  have b: "map_of ?p ''Rep'' = Some (JList [])" by simp
  show ?thesis
    using period_header [OF a b, of "[''title'']", THEN conjunct1]
    by (simp add: section_header_def py_replace_Z_def)
qed

text \<open>
  A date with a \<^verbatim>\<open>Z\<close> before its end: the header loses that character too.
\<close>

theorem inner_zone_marker_counterexample:
  "format_period (JDict [(''value'', JStr ''2025Z-08-03Z''), (''Rep'', JList [])]) [] =
     Inr [''\<newline>=== 2025-08-03 ===''] 
   \<and> section_header (strip_trailing_zone ''2025Z-08-03Z'') = ''\<newline>=== 2025Z-08-03 ===''
   \<and> format_period (JDict [(''value'', JStr ''2025Z-08-03Z''), (''Rep'', JList [])]) [] \<noteq>
     Inr [section_header (strip_trailing_zone ''2025Z-08-03Z'')]"
  by (simp add: format_period_def bind_def py_getitem_def py_str_method_def py_iter_def
      section_header_def py_replace_Z_def strip_trailing_zone_def)

section \<open>Properties of the request\<close>

lemma map_of_setdefault:
  "map_of (setdefault d k v) k' =
     (if k' = k then (case map_of d k of Some x \<Rightarrow> Some x | None \<Rightarrow> Some v) else map_of d k')"
proof (cases "k \<in> fst ` set d")
  case True
  then have "map_of d k \<noteq> None"
    by (simp add: map_of_eq_None_iff)
  then obtain x where "map_of d k = Some x"
    by blast
  with True show ?thesis by (simp add: setdefault_def)
next
  case False
  then have "map_of d k = None" by (simp add: map_of_eq_None_iff)
  with False show ?thesis
    by (simp add: setdefault_def map_add_def split: option.split)
qed

lemma map_of_setdefault_same:
  "map_of (setdefault d k v) k = (case map_of d k of Some x \<Rightarrow> Some x | None \<Rightarrow> Some v)"
  by (simp add: map_of_setdefault)

lemma map_of_setdefault_other:
  "k' \<noteq> k \<Longrightarrow> map_of (setdefault d k v) k' = map_of d k'"
  by (simp add: map_of_setdefault)

lemma setdefault_present: "map_of d k \<noteq> None \<Longrightarrow> setdefault d k v = d"
  by (simp add: setdefault_def map_of_eq_None_iff)

lemma requests_sent:
  "fst (make_met_office_request api_key net u ps) =
     [\<lparr>url = u, query = request_params api_key ps, timeout_seconds = 30\<rparr>]"
  by (simp add: make_met_office_request_def Let_def split: sum.split py_error.split)

text \<open>
  Claim C8. Every request that \<^verbatim>\<open>make_met_office_request\<close> sends goes to the given
  address and has a \<^verbatim>\<open>key\<close> parameter: the value the caller supplied when there is one,
  the configured key otherwise. Every other parameter is as the caller supplied it, and
  parameters that came with a key are sent unchanged.
\<close>

theorem key_parameter:
  "\<forall>req \<in> set (fst (make_met_office_request api_key net u ps)).
      url req = u
      \<and> map_of (query req) ''key'' =
          (case map_of (supplied ps) ''key'' of Some v \<Rightarrow> Some v | None \<Rightarrow> Some (JStr api_key))
      \<and> (\<forall>k. k \<noteq> ''key'' \<longrightarrow> map_of (query req) k = map_of (supplied ps) k)
      \<and> (map_of (supplied ps) ''key'' \<noteq> None \<longrightarrow> query req = supplied ps)"
proof
  fix req
  assume "req \<in> set (fst (make_met_office_request api_key net u ps))"
  then have req: "req = \<lparr>url = u, query = request_params api_key ps, timeout_seconds = 30\<rparr>"
    by (simp add: requests_sent)
  have p: "request_params api_key ps = setdefault (supplied ps) ''key'' (JStr api_key)"
    by (simp add: request_params_def supplied_def)
  have 1: "url req = u" by (simp add: req)
  have q: "query req = setdefault (supplied ps) ''key'' (JStr api_key)"
    by (simp add: req p)
  have 2: "map_of (query req) ''key'' =
          (case map_of (supplied ps) ''key'' of Some v \<Rightarrow> Some v | None \<Rightarrow> Some (JStr api_key))"
    unfolding q by (rule map_of_setdefault_same)
  have 3: "\<forall>k. k \<noteq> ''key'' \<longrightarrow> map_of (query req) k = map_of (supplied ps) k"
    unfolding q by (intro allI impI) (rule map_of_setdefault_other)
  have 4: "map_of (supplied ps) ''key'' \<noteq> None \<longrightarrow> query req = supplied ps"
    unfolding q by (rule impI) (rule setdefault_present)
  show "url req = u
      \<and> map_of (query req) ''key'' =
          (case map_of (supplied ps) ''key'' of Some v \<Rightarrow> Some v | None \<Rightarrow> Some (JStr api_key))
      \<and> (\<forall>k. k \<noteq> ''key'' \<longrightarrow> map_of (query req) k = map_of (supplied ps) k)
      \<and> (map_of (supplied ps) ''key'' \<noteq> None \<longrightarrow> query req = supplied ps)"
    by (intro conjI) (rule 1, rule 2, rule 3, rule 4)
qed

theorem key_parameter_witness:
  "fst (make_met_office_request ''secret'' (\<lambda>r. TransportFault ''down'') ''u''
          (Some [(''res'', JStr ''hourly'')])) =
     [\<lparr>url = ''u'', query = [(''res'', JStr ''hourly''), (''key'', JStr ''secret'')],
       timeout_seconds = 30\<rparr>]
   \<and> fst (make_met_office_request ''secret'' (\<lambda>r. TransportFault ''down'') ''u''
          (Some [(''key'', JStr ''mine'')])) =
     [\<lparr>url = ''u'', query = [(''key'', JStr ''mine'')], timeout_seconds = 30\<rparr>]"
  using key_parameter [of "''secret''" "\<lambda>r. TransportFault ''down''" "''u''"
      "Some [(''res'', JStr ''hourly'')]"]
    key_parameter [of "''secret''" "\<lambda>r. TransportFault ''down''" "''u''"
      "Some [(''key'', JStr ''mine'')]"]
  by (simp add: requests_sent request_params_def setdefault_def)

section \<open>Properties of a failed request\<close>

text \<open>
  The statuses 404 and 500: the status and the text of the response are printed, and the
  value returned is \<^verbatim>\<open>None\<close> both times, so that it holds neither.
\<close>

theorem status_not_returned_counterexample:
  "make_met_office_request ''secret''
     (\<lambda>r. Response 404 ''Not Found'' (Inl (JSONDecodeError ''no document''))) ''u'' None =
   ([\<lparr>url = ''u'', query = [(''key'', JStr ''secret'')], timeout_seconds = 30\<rparr>],
    [''HTTP Error: 404 - Not Found''], Inr JNull)
   \<and> make_met_office_request ''secret''
     (\<lambda>r. Response 500 ''Server Error'' (Inl (JSONDecodeError ''no document''))) ''u'' None =
   ([\<lparr>url = ''u'', query = [(''key'', JStr ''secret'')], timeout_seconds = 30\<rparr>],
    [''HTTP Error: 500 - Server Error''], Inr JNull)
   \<and> snd (snd (make_met_office_request ''secret''
        (\<lambda>r. Response 404 ''Not Found'' (Inl (JSONDecodeError ''no document''))) ''u'' None)) =
     snd (snd (make_met_office_request ''secret''
        (\<lambda>r. Response 500 ''Server Error'' (Inl (JSONDecodeError ''no document''))) ''u'' None))"
  by (simp add: make_met_office_request_def request_body_def is_success_def request_params_def
      setdefault_def digit_char_def)

text \<open>
  Claim C7, as amended. For a response with a status outside 200 to 299 the function
  prints the status and the text of the response and returns \<^verbatim>\<open>None\<close>; for a fault of
  the transport, and for a response whose text is no JSON document, it prints the message
  of the exception and returns \<^verbatim>\<open>None\<close>. A successful response with the document
  \<^verbatim>\<open>null\<close> gives \<^verbatim>\<open>None\<close> as well, with nothing printed. An exception leaves the function
  only when the \<^verbatim>\<open>try\<close> block raises one that is no \<^verbatim>\<open>Exception\<close>, the cancellation of the
  task; every other is taken by a handler.
\<close>

theorem request_failures:
  fixes api_key u ps net
  defines "req \<equiv> \<lparr>url = u, query = request_params api_key ps, timeout_seconds = 30\<rparr>"
  shows "(net req = Response status body document \<and> \<not> is_success status \<longrightarrow>
            make_met_office_request api_key net u ps =
              ([req], [''HTTP Error: '' @ show_nat status @ '' - '' @ body], Inr JNull))
         \<and> (net req = TransportFault m \<longrightarrow>
            make_met_office_request api_key net u ps =
              ([req], [''An error occurred: '' @ m], Inr JNull))
         \<and> (net req = Response status body (Inl (JSONDecodeError m)) \<and> is_success status \<longrightarrow>
            make_met_office_request api_key net u ps =
              ([req], [''An error occurred: '' @ m], Inr JNull))
         \<and> (net req = Response status body (Inr JNull) \<and> is_success status \<longrightarrow>
            make_met_office_request api_key net u ps = ([req], [], Inr JNull))
         \<and> ((\<exists>e. snd (snd (make_met_office_request api_key net u ps)) = Inl e) \<longleftrightarrow>
              request_body (net req) = Inl CancelledError)
         \<and> (snd (snd (make_met_office_request api_key net u ps)) = Inr JNull \<longleftrightarrow>
              (case request_body (net req) of
                 Inr document \<Rightarrow> document = JNull
               | Inl e \<Rightarrow> is_exception e))"
  unfolding req_def
  by (auto simp add: make_met_office_request_def request_body_def Let_def is_exception_def
      str_of_error_def split: http_outcome.splits sum.splits py_error.splits)

theorem request_failures_witness:
  "make_met_office_request ''secret''
     (\<lambda>r. Response 404 ''Not Found'' (Inl (JSONDecodeError ''no document''))) ''u'' None =
   ([\<lparr>url = ''u'', query = [(''key'', JStr ''secret'')], timeout_seconds = 30\<rparr>],
    [''HTTP Error: 404 - Not Found''], Inr JNull)"
  using request_failures [where net = "\<lambda>r. Response 404 ''Not Found'' (Inl (JSONDecodeError ''no document''))"
      and u = "''u''" and api_key = "''secret''" and ps = None and status = 404
      and body = "''Not Found''" and document = "Inl (JSONDecodeError ''no document'')",
      THEN conjunct1]
  by (simp add: is_success_def request_params_def setdefault_def digit_char_def)

section \<open>Properties of the exposed operation\<close>

lemma falsy_cases:
  "\<not> py_truthy data \<longleftrightarrow>
     data = JNull \<or> data = JBool False \<or> data = JInt 0 \<or> data = JStr [] \<or> data = JList []
     \<or> data = JDict [] \<or> (\<exists>shown. data = JFloat (Finite 0 False shown))"
proof (cases data)
  case (JFloat x)
  then show ?thesis by (cases x) (auto simp add: py_truthy_def float_nonzero_def)
qed (simp_all add: py_truthy_def)

lemma format_falsy:
  assumes "\<not> py_truthy data"
  shows "format_observations data \<noteq> Inr fetch_failure_message"
proof -
  from assms consider "data = JDict []" | "\<forall>d. data \<noteq> JDict d"
    by (auto simp add: falsy_cases)
  then show ?thesis
  proof cases
    case 1
    then show ?thesis
      by (simp add: format_observations_def format_body_def bind_def py_getitem_def
          format_catches_def parse_failure_def fetch_failure_message_def)
  next
    case 2
    then have "format_body data = Inl TypeError"
      by (cases data) (simp_all add: format_body_def bind_def py_getitem_def)
    then show ?thesis
      by (simp add: format_observations_def format_catches_def is_value_error_def)
  qed
qed

lemma transport_fault_value:
  "make_met_office_request api_key (\<lambda>r. TransportFault m) u ps =
     ([\<lparr>url = u, query = request_params api_key ps, timeout_seconds = 30\<rparr>],
      [''An error occurred: '' @ m], Inr JNull)"
  by (simp add: make_met_office_request_def request_body_def is_exception_def str_of_error_def)

text \<open>
  Claim C10. When the station is found and the request returns a document that Python
  takes for false (\<^verbatim>\<open>None\<close>, \<^verbatim>\<open>False\<close>, zero as an integer or a float, or an empty string,
  list or object), the operation returns the fetch failure message, the value it returns
  when the transport fails. The formatter is not the source of that text: on such a
  document it gives something else.
\<close>

theorem falsy_payload:
  assumes "lookup_station_id (stations w) name = (out, Inr (Some locid))"
    and "py_truthy locid"
    and "py_str locid = Inr id_shown"
    and "make_met_office_request (MET_OFFICE_API_KEY w) (network w)
           (MET_OFFICE_API_BASE @ ''/wxobs/all/json/'' @ id_shown)
           (Some [(''res'', JStr ''hourly'')]) = (reqs, printed, Inr data)"
    and "\<not> py_truthy data"
  shows "get_hourly_observations w name = (out @ printed, reqs, Inr fetch_failure_message)
         \<and> snd (snd (get_hourly_observations (w\<lparr>network := \<lambda>r. TransportFault m\<rparr>) name)) =
             snd (snd (get_hourly_observations w name))
         \<and> format_observations data \<noteq> Inr fetch_failure_message
         \<and> (data = JNull \<or> data = JBool False \<or> data = JInt 0 \<or> data = JStr []
              \<or> data = JList [] \<or> data = JDict []
              \<or> (\<exists>shown. data = JFloat (Finite 0 False shown)))"
proof (intro conjI)
  show a: "get_hourly_observations w name = (out @ printed, reqs, Inr fetch_failure_message)"
    using assms by (simp add: get_hourly_observations_def)
  show "snd (snd (get_hourly_observations (w\<lparr>network := \<lambda>r. TransportFault m\<rparr>) name)) =
             snd (snd (get_hourly_observations w name))"
    unfolding a using assms(1,2,3)
    by (simp add: get_hourly_observations_def transport_fault_value py_truthy_def)
  show "format_observations data \<noteq> Inr fetch_failure_message"
    using assms(5) by (rule format_falsy)
  show "data = JNull \<or> data = JBool False \<or> data = JInt 0 \<or> data = JStr []
              \<or> data = JList [] \<or> data = JDict []
              \<or> (\<exists>shown. data = JFloat (Finite 0 False shown))"
    using assms(5) by (simp add: falsy_cases)
qed

lemma lookup_heathrow:
  "lookup_station_id (FileJson (JDict [(''Locations'', JDict [(''Location'',
            JList [JDict [(''name'', JStr ''Heathrow''), (''id'', JStr ''3772'')]])])])) ''heathrow''
   = ([], Inr (Some (JStr ''3772'')))"
  by code_simp

lemma request_empty:
  "make_met_office_request ''secret'' (\<lambda>r. Response 200 ''{}'' (Inr (JDict [])))
     (MET_OFFICE_API_BASE @ ''/wxobs/all/json/'' @ ''3772'')
     (Some [(''res'', JStr ''hourly'')]) =
   ([\<lparr>url = MET_OFFICE_API_BASE @ ''/wxobs/all/json/3772'',
      query = [(''res'', JStr ''hourly''), (''key'', JStr ''secret'')],
      timeout_seconds = 30\<rparr>], [], Inr (JDict []))"
  by (simp add: make_met_office_request_def request_body_def is_success_def request_params_def
      setdefault_def)

theorem falsy_payload_witness:
  "get_hourly_observations
     \<lparr>stations = FileJson (JDict [(''Locations'', JDict [(''Location'',
         JList [JDict [(''name'', JStr ''Heathrow''), (''id'', JStr ''3772'')]])])]),
      network = (\<lambda>r. Response 200 ''{}'' (Inr (JDict []))),
      MET_OFFICE_API_KEY = ''secret''\<rparr> ''heathrow'' =
   ([],
    [\<lparr>url = MET_OFFICE_API_BASE @ ''/wxobs/all/json/3772'',
      query = [(''res'', JStr ''hourly''), (''key'', JStr ''secret'')],
      timeout_seconds = 30\<rparr>],
    Inr ''Unable to fetch observations data for this location.'')"
proof -
  let ?w = "\<lparr>stations = FileJson (JDict [(''Locations'', JDict [(''Location'',
         JList [JDict [(''name'', JStr ''Heathrow''), (''id'', JStr ''3772'')]])])]),
      network = (\<lambda>r. Response 200 ''{}'' (Inr (JDict []))),
      MET_OFFICE_API_KEY = ''secret''\<rparr>"
  have a: "lookup_station_id (stations ?w) ''heathrow'' = ([], Inr (Some (JStr ''3772'')))"
    by (simp add: lookup_heathrow)
  have b: "py_truthy (JStr ''3772'')" by (simp add: py_truthy_def)
  have s: "py_str (JStr ''3772'') = Inr ''3772''" by (rule py_str_JStr)
  have c: "make_met_office_request (MET_OFFICE_API_KEY ?w) (network ?w)
           (MET_OFFICE_API_BASE @ ''/wxobs/all/json/'' @ ''3772'')
           (Some [(''res'', JStr ''hourly'')]) =
         ([\<lparr>url = MET_OFFICE_API_BASE @ ''/wxobs/all/json/3772'',
            query = [(''res'', JStr ''hourly''), (''key'', JStr ''secret'')],
            timeout_seconds = 30\<rparr>], [], Inr (JDict []))"
    using request_empty by simp
  have d: "\<not> py_truthy (JDict [])" by (simp add: py_truthy_def)
  show ?thesis
    using falsy_payload [OF a b s c d, THEN conjunct1]
    by (simp add: fetch_failure_message_def)
qed

section \<open>Properties of the resolution of a name\<close>

lemma starts_with_iff: "starts_with a b \<longleftrightarrow> (\<exists>s. b = a @ s)"
proof (induction a b rule: starts_with.induct)
  case (1 s)
  then show ?case by simp
next
  case (2 a as)
  then show ?case by simp
next
  case (3 a as b bs)
  then show ?case by auto
qed

lemma py_in_iff: "py_in a b \<longleftrightarrow> (\<exists>p s. b = p @ a @ s)"
proof (induction b)
  case Nil
  then show ?case by simp
next
  case (Cons x bs)
  have "(\<exists>p s. x # bs = p @ a @ s) \<longleftrightarrow> (\<exists>s. x # bs = a @ s) \<or> (\<exists>p s. bs = p @ a @ s)"
  proof
    assume "\<exists>p s. x # bs = p @ a @ s"
    then obtain p s where e: "x # bs = p @ a @ s" by blast
    show "(\<exists>s. x # bs = a @ s) \<or> (\<exists>p s. bs = p @ a @ s)"
    proof (cases p)
      case Nil
      with e show ?thesis by simp
    next
      case (Cons y p')
      with e have "bs = p' @ a @ s" by simp
      then show ?thesis by blast
    qed
  next
    assume "(\<exists>s. x # bs = a @ s) \<or> (\<exists>p s. bs = p @ a @ s)"
    then show "\<exists>p s. x # bs = p @ a @ s"
    proof
      assume "\<exists>s. x # bs = a @ s"
      then obtain s where "x # bs = [] @ a @ s" by auto
      then show ?thesis by blast
    next
      assume "\<exists>p s. bs = p @ a @ s"
      then obtain p s where "x # bs = (x # p) @ a @ s" by auto
      then show ?thesis by blast
    qed
  qed
  with Cons show ?case by (simp add: starts_with_iff)
qed

lemma as_location_Some:
  assumes "as_location v = Some r"
  shows "py_getitem v ''name'' = Inr (JStr (loc_name r)) \<and> py_getitem v ''id'' = Inr (loc_id r)"
  using assms
  by (auto simp add: as_location_def py_getitem_def split: json.splits option.splits)

lemma those_Cons:
  assumes "those (map g (x # xs)) = Some rs"
  shows "\<exists>r rest. g x = Some r \<and> those (map g xs) = Some rest \<and> rs = r # rest"
  using assms by (auto split: option.splits)

lemma exact_loop_find:
  "those (map as_location locs) = Some recs \<Longrightarrow>
   exact_loop q locs = Inr (map_option loc_id (find (equals_ignoring_case q) recs))"
proof (induction locs arbitrary: recs)
  case Nil
  then show ?case by simp
next
  case (Cons v locs)
  from those_Cons [OF Cons.prems] obtain r rest where
    r: "as_location v = Some r" and rest: "those (map as_location locs) = Some rest"
    and recs: "recs = r # rest" by blast
  from as_location_Some [OF r] Cons.IH [OF rest] show ?case
    by (simp add: recs bind_def py_str_method_def equals_ignoring_case_def)
qed

lemma partial_loop_find:
  "those (map as_location locs) = Some recs \<Longrightarrow>
   partial_loop q locs = Inr (map_option loc_id (find (contains_ignoring_case q) recs))"
proof (induction locs arbitrary: recs)
  case Nil
  then show ?case by simp
next
  case (Cons v locs)
  from those_Cons [OF Cons.prems] obtain r rest where
    r: "as_location v = Some r" and rest: "those (map as_location locs) = Some rest"
    and recs: "recs = r # rest" by blast
  from as_location_Some [OF r] Cons.IH [OF rest] show ?case
    by (simp add: recs bind_def py_str_method_def contains_ignoring_case_def)
qed

lemma directory_Some:
  assumes "directory f = Some recs"
  shows "\<exists>d l locs. f = FileJson (JDict d) \<and> map_of d ''Locations'' = Some (JDict l)
           \<and> map_of l ''Location'' = Some (JList locs) \<and> those (map as_location locs) = Some recs"
  using assms
  by (auto simp add: directory_def split: stations_file.splits json.splits option.splits)

lemma lookup_body_resolve:
  assumes "directory f = Some recs"
  shows "lookup_body f q = Inr (resolve recs q)"
proof -
  from directory_Some [OF assms] obtain d l locs where
    f: "f = FileJson (JDict d)" and d: "map_of d ''Locations'' = Some (JDict l)"
    and l: "map_of l ''Location'' = Some (JList locs)"
    and recs: "those (map as_location locs) = Some recs" by blast
  show ?thesis
    by (simp add: f lookup_body_def read_stations_def bind_def py_get_def d l py_iter_def
        exact_loop_find [OF recs] partial_loop_find [OF recs] resolve_def
        split: option.split)
qed

lemma find_first:
  assumes "i < length xs" "P (xs ! i)" "\<forall>j<i. \<not> P (xs ! j)"
  shows "find P xs = Some (xs ! i)"
  using assms by (auto simp add: find_Some_iff)

lemma find_none: "(\<forall>x\<in>set xs. \<not> P x) \<Longrightarrow> find P xs = None"
  by (simp add: find_None_iff)

text \<open>
  Claim C1. Over a directory of records, \<^verbatim>\<open>lookup_station_id\<close> prints nothing and
  returns what the matching policy \<open>resolve\<close> gives: the identifier of the first record
  in file order whose name equals the query without regard to case; when no record does,
  the identifier of the first record whose name contains the query without regard to
  case; when no record does either, nothing. The result is a function of the directory
  and the query alone.
\<close>

theorem resolution_policy:
  assumes "directory f = Some recs"
  shows "lookup_station_id f q = ([], Inr (resolve recs q))
         \<and> (\<forall>i<length recs.
               equals_ignoring_case q (recs ! i)
               \<and> (\<forall>j<i. \<not> equals_ignoring_case q (recs ! j))
               \<longrightarrow> resolve recs q = Some (loc_id (recs ! i)))
         \<and> ((\<forall>r\<in>set recs. \<not> equals_ignoring_case q r) \<longrightarrow>
              (\<forall>i<length recs.
                 contains_ignoring_case q (recs ! i)
                 \<and> (\<forall>j<i. \<not> contains_ignoring_case q (recs ! j))
                 \<longrightarrow> resolve recs q = Some (loc_id (recs ! i))))
         \<and> ((\<forall>r\<in>set recs. \<not> contains_ignoring_case q r) \<longrightarrow> resolve recs q = None)
         \<and> (\<forall>r. equals_ignoring_case q r \<longleftrightarrow> py_lower (loc_name r) = py_lower q)
         \<and> (\<forall>r. contains_ignoring_case q r \<longleftrightarrow>
                (\<exists>p s. py_lower (loc_name r) = p @ py_lower q @ s))"
proof (intro conjI allI impI)
  show "lookup_station_id f q = ([], Inr (resolve recs q))"
    by (simp add: lookup_station_id_def lookup_body_resolve [OF assms])
next
  fix i
  assume "i < length recs"
    and "equals_ignoring_case q (recs ! i) \<and> (\<forall>j<i. \<not> equals_ignoring_case q (recs ! j))"
  then have "find (equals_ignoring_case q) recs = Some (recs ! i)"
    by (simp add: find_first)
  then show "resolve recs q = Some (loc_id (recs ! i))"
    by (simp add: resolve_def)
next
  fix i
  assume none: "\<forall>r\<in>set recs. \<not> equals_ignoring_case q r"
    and "i < length recs"
    and "contains_ignoring_case q (recs ! i) \<and> (\<forall>j<i. \<not> contains_ignoring_case q (recs ! j))"
  then have "find (contains_ignoring_case q) recs = Some (recs ! i)"
    by (simp add: find_first)
  moreover from none have "find (equals_ignoring_case q) recs = None"
    by (rule find_none)
  ultimately show "resolve recs q = Some (loc_id (recs ! i))"
    by (simp add: resolve_def)
next
  assume none: "\<forall>r\<in>set recs. \<not> contains_ignoring_case q r"
  have "\<not> equals_ignoring_case q r" if "r \<in> set recs" for r
  proof
    assume "equals_ignoring_case q r"
    then have "py_lower (loc_name r) = [] @ py_lower q @ []"
      by (simp add: equals_ignoring_case_def)
    then have "contains_ignoring_case q r"
      unfolding contains_ignoring_case_def py_in_iff by blast
    with none that show False by blast
  qed
  then have "find (equals_ignoring_case q) recs = None"
    by (simp add: find_None_iff)
  moreover from none have "find (contains_ignoring_case q) recs = None"
    by (rule find_none)
  ultimately show "resolve recs q = None"
    by (simp add: resolve_def)
next
  fix r
  show "equals_ignoring_case q r \<longleftrightarrow> py_lower (loc_name r) = py_lower q"
    by (simp add: equals_ignoring_case_def)
next
  fix r
  show "contains_ignoring_case q r \<longleftrightarrow> (\<exists>p s. py_lower (loc_name r) = p @ py_lower q @ s)"
    by (simp add: contains_ignoring_case_def py_in_iff)
qed

lemma resolve_example:
  "resolve [\<lparr>loc_name = ''Heathrow Airport'', loc_id = JStr ''1''\<rparr>,
            \<lparr>loc_name = ''HEATHROW'', loc_id = JStr ''2''\<rparr>] ''heathrow'' = Some (JStr ''2'')"
  by code_simp

theorem resolution_policy_witness:
  "lookup_station_id
     (FileJson (JDict [(''Locations'', JDict [(''Location'',
        JList [JDict [(''name'', JStr ''Heathrow Airport''), (''id'', JStr ''1'')],
               JDict [(''name'', JStr ''HEATHROW''), (''id'', JStr ''2'')]])])]))
     ''heathrow'' = ([], Inr (Some (JStr ''2'')))"
proof -
  have a: "directory
     (FileJson (JDict [(''Locations'', JDict [(''Location'',
        JList [JDict [(''name'', JStr ''Heathrow Airport''), (''id'', JStr ''1'')],
               JDict [(''name'', JStr ''HEATHROW''), (''id'', JStr ''2'')]])])]))
     = Some [\<lparr>loc_name = ''Heathrow Airport'', loc_id = JStr ''1''\<rparr>,
             \<lparr>loc_name = ''HEATHROW'', loc_id = JStr ''2''\<rparr>]"
    by (simp add: directory_def as_location_def)
  show ?thesis
    using resolution_policy [OF a, of "''heathrow''", THEN conjunct1]
    by (simp add: resolve_example)
qed

section \<open>The lookup on a damaged directory\<close>

text \<open>
  Claim C6. The claim, like the docstring of \<^verbatim>\<open>lookup_station_id\<close> (\<^verbatim>\<open>None otherwise\<close>),
  has the lookup return \<^verbatim>\<open>None\<close> on every damaged file. The handler names
  \<open>FileNotFoundError\<close>, \<open>JSONDecodeError\<close> and \<open>KeyError\<close> only. On the document
  \<^verbatim>\<open>{"Locations": null}\<close> the second \<^verbatim>\<open>get\<close> is called on \<^verbatim>\<open>None\<close> and raises
  \<open>AttributeError\<close>, which leaves the lookup and the operation; a file that is no text in
  the encoding of the locale leaves it with \<open>UnicodeDecodeError\<close>.
\<close>

theorem null_locations_raises:
  "lookup_station_id (FileJson (JDict [(''Locations'', JNull)])) ''heathrow'' =
     ([], Inl AttributeError)
   \<and> get_hourly_observations
       \<lparr>stations = FileJson (JDict [(''Locations'', JNull)]),
        network = (\<lambda>r. TransportFault ''down''),
        MET_OFFICE_API_KEY = ''secret''\<rparr> ''heathrow'' = ([], [], Inl AttributeError)
   \<and> lookup_station_id (FileNotText ''invalid start byte'') ''heathrow'' =
     ([], Inl (UnicodeDecodeError ''invalid start byte''))"
  by (simp add: get_hourly_observations_def lookup_station_id_def lookup_body_def
      read_stations_def bind_def py_get_def lookup_catches_def)

section \<open>The formatter on a damaged payload\<close>

text \<open>
  Claim C2. The claim has every failure of the navigation end in the failure text. The
  handler names \<open>KeyError\<close>, \<open>IndexError\<close> and \<open>ValueError\<close> only. On a payload whose
  \<^verbatim>\<open>Period\<close> is one object and not a list, the loop runs over the keys of the object,
  indexing a key with \<^verbatim>\<open>"value"\<close> raises \<open>TypeError\<close>, and the exception leaves the
  formatter and the operation. A weather code that is an infinity leaves them with
  \<open>OverflowError\<close>.
\<close>

theorem single_period_raises:
  "format_observations (JDict [(''SiteRep'', JDict [(''DV'', JDict [(''Location'',
      JDict [(''name'', JStr ''HEATHROW''),
             (''Period'', JDict [(''value'', JStr ''2025-08-03Z''),
                                 (''Rep'', JList [])])])])])]) = Inl TypeError
   \<and> snd (snd (get_hourly_observations
       \<lparr>stations = FileJson (JDict [(''Locations'', JDict [(''Location'',
          JList [JDict [(''name'', JStr ''Heathrow''), (''id'', JStr ''3772'')]])])]),
        network = (\<lambda>r. Response 200 []
          (Inr (JDict [(''SiteRep'', JDict [(''DV'', JDict [(''Location'',
             JDict [(''name'', JStr ''HEATHROW''),
                    (''Period'', JDict [(''value'', JStr ''2025-08-03Z''),
                                        (''Rep'', JList [])])])])])]))),
        MET_OFFICE_API_KEY = ''secret''\<rparr> ''heathrow'')) = Inl TypeError
   \<and> format_observations (JDict [(''SiteRep'', JDict [(''DV'', JDict [(''Location'',
      JDict [(''name'', JStr ''HEATHROW''),
             (''Period'', JList [JDict [(''value'', JStr ''2025-08-03Z''),
                (''Rep'', JList [JDict [(''$'', JStr ''90''),
                                        (''W'', JFloat (Infinite False))]])]])])])])])
       = Inl (OverflowError ''cannot convert float infinity to integer'')"
  by code_simp

end
